theory Spec2Isabelle
  imports Complex_Main "HOL-Library.Option_ord" "HOL-Library.Multiset"
begin

section \<open>Data model\<close>

text \<open>
  The two tables created by \<open>init_db\<close> (database.py). Python integers are \<open>int\<close>,
  TEXT columns are \<open>string\<close>, a nullable column is an \<open>option\<close>. A rating (Python
  \<open>float\<close>, SQL REAL) is a rational number: every finite double is one; the rounding of
  floating-point sums and quotients is not modelled. \<open>created_at\<close> is the value of
  CURRENT_TIMESTAMP at insertion, a number of seconds handed to the inserting handler.
\<close>

record anime_row =
  a_id :: int
  a_title :: string
  a_description :: "string option"
  a_created_at :: nat

record review_row =
  r_id :: int
  r_anime_id :: int
  r_user_name :: string
  r_rating :: rat
  r_review_text :: "string option"
  r_status :: string
  r_created_at :: nat

text \<open>
  The database file: both tables in storage order, and for each table the AUTOINCREMENT
  counter that SQLite keeps in \<open>sqlite_sequence\<close> (the largest rowid ever handed out).
\<close>

record database =
  anime :: "anime_row list"
  reviews :: "review_row list"
  anime_seq :: int
  reviews_seq :: int

text \<open>\<open>init_db\<close> on a fresh file: CREATE TABLE IF NOT EXISTS twice, no rows.\<close>

definition init_db :: database where
  "init_db = \<lparr>anime = [], reviews = [], anime_seq = 0, reviews_seq = 0\<rparr>"

text \<open>
  A connection as \<open>get_db\<close> opens it: \<open>aiosqlite.connect(DB_PATH)\<close> and a row factory.
  SQLite enforces foreign keys per connection and only after \<open>PRAGMA foreign_keys = ON\<close>;
  the source never issues that pragma, so the flag keeps SQLite's default, off.
\<close>

record connection =
  foreign_keys :: bool

definition get_db :: connection where
  "get_db = \<lparr>foreign_keys = False\<rparr>"

section \<open>Requests, responses and errors\<close>

record AnimeCreate =
  ac_title :: string

record AnimeResponse =
  ar_id :: int
  ar_title :: string
  ar_description :: "string option"
  ar_average_rating :: "rat option"
  ar_total_reviews :: int
  ar_latest_review_text :: "string option"
  ar_latest_review_user :: "string option"
  ar_created_at :: nat

record ReviewCreate =
  rc_anime_id :: int
  rc_user_name :: string
  rc_rating :: rat
  rc_review_text :: "string option"
  rc_status :: string

record ReviewUpdate =
  ru_rating :: "rat option"
  ru_review_text :: "string option"
  ru_status :: "string option"

text \<open>\<open>ReviewResponse\<close> has exactly the columns of a reviews row (\<open>dict(row)\<close>).\<close>

type_synonym ReviewResponse = review_row

record AnimeWithReviews =
  aw_anime :: AnimeResponse
  aw_reviews :: "ReviewResponse list"

text \<open>
  What a caller can get instead of a result: an \<open>HTTPException\<close> raised by a handler, the
  422 answer built from the \<open>ValueError\<close>s of the pydantic validators (one message per
  failed validator), or an exception no handler catches, which the framework answers with
  500: \<open>sqlite3.IntegrityError\<close> from a constraint of the schema, \<open>OverflowError\<close> from the
  driver when a Python integer bound to a statement does not fit SQLite's INTEGER, and
  \<open>TypeError\<close> from \<open>dict(None)\<close>.
\<close>

datatype sql_error = IntegrityError string

datatype error =
    HTTPException int string
  | ValidationError "string list"
  | UncaughtIntegrityError string
  | UncaughtTypeError
  | UncaughtOverflowError

text \<open>The names the specification gives to the rejections.\<close>

definition NotFound_Anime :: error where
  "NotFound_Anime = HTTPException 404 ''Anime not found''"

definition NotFound_Review :: error where
  "NotFound_Review = HTTPException 404 ''Review not found''"

definition DuplicateTitle :: error where
  "DuplicateTitle = HTTPException 400 ''Anime with this title already exists''"

definition PlanningMustBeUnrated :: error where
  "PlanningMustBeUnrated = HTTPException 400 ''Cannot rate anime with planning status''"

definition InvalidStatus_msg :: string where
  "InvalidStatus_msg = ''Status must be watched or planning''"

definition InvalidRating_msg :: string where
  "InvalidRating_msg = ''Rating must be between 0 and 10''"

section \<open>The storage engine\<close>

subsection \<open>Constraints of the schema\<close>

text \<open>
  \<open>CHECK(rating >= 0 AND rating <= 10)\<close> and \<open>CHECK(status IN ('watched', 'planning'))\<close>
  of the reviews table. SQLite enforces CHECK constraints on every INSERT and UPDATE; the
  message of the error names the expression that failed.
\<close>

definition check_rating :: "review_row \<Rightarrow> bool" where
  "check_rating r \<longleftrightarrow> r_rating r \<ge> 0 \<and> r_rating r \<le> 10"

definition check_status :: "review_row \<Rightarrow> bool" where
  "check_status r \<longleftrightarrow> r_status r \<in> set [''watched'', ''planning'']"

definition check_constraints :: "review_row \<Rightarrow> sql_error option" where
  "check_constraints r =
     (if \<not> check_rating r
      then Some (IntegrityError ''CHECK constraint failed: rating >= 0 AND rating <= 10'')
      else if \<not> check_status r
      then Some (IntegrityError ''CHECK constraint failed: status IN ('watched', 'planning')'')
      else None)"

text \<open>
  \<open>INTEGER PRIMARY KEY AUTOINCREMENT\<close>: the new rowid is one more than the largest rowid
  the table ever held, which is the larger of the \<open>sqlite_sequence\<close> entry and the
  rowids present.
\<close>

definition next_rowid :: "int \<Rightarrow> int list \<Rightarrow> int" where
  "next_rowid seq ids = fold max ids seq + 1"

subsection \<open>Statements on the anime table\<close>

text \<open>
  \<open>INSERT INTO anime (title, description) VALUES (?, ?)\<close>; \<open>title\<close> is UNIQUE (compared
  byte for byte), \<open>created_at\<close> defaults to the current time. Returns \<open>lastrowid\<close>.
\<close>

definition insert_anime ::
  "string \<Rightarrow> string option \<Rightarrow> nat \<Rightarrow> database \<Rightarrow> sql_error + (int \<times> database)" where
  "insert_anime t d now db =
     (if t \<in> set (map a_title (anime db))
      then Inl (IntegrityError ''UNIQUE constraint failed: anime.title'')
      else
        let i = next_rowid (anime_seq db) (map a_id (anime db));
            row = \<lparr>a_id = i, a_title = t, a_description = d, a_created_at = now\<rparr>
        in Inr (i, db\<lparr>anime := anime db @ [row], anime_seq := i\<rparr>))"

text \<open>\<open>SELECT ... FROM anime WHERE id = ?\<close> with \<open>fetchone\<close>.\<close>

definition select_anime_by_id :: "int \<Rightarrow> database \<Rightarrow> anime_row option" where
  "select_anime_by_id i db = find (\<lambda>a. a_id a = i) (anime db)"

text \<open>
  \<open>DELETE FROM anime WHERE id=?\<close>. The reviews table declares
  \<open>FOREIGN KEY (anime_id) REFERENCES anime(id) ON DELETE CASCADE\<close>; the cascade runs only
  on a connection whose foreign-key enforcement is on.
\<close>

definition sql_delete_anime :: "connection \<Rightarrow> int \<Rightarrow> database \<Rightarrow> database" where
  "sql_delete_anime c i db =
     (let db' = db\<lparr>anime := filter (\<lambda>a. a_id a \<noteq> i) (anime db)\<rparr>
      in if foreign_keys c
         then db'\<lparr>reviews := filter (\<lambda>r. r_anime_id r \<noteq> i) (reviews db')\<rparr>
         else db')"

subsection \<open>Statements on the reviews table\<close>

text \<open>\<open>SELECT * FROM reviews WHERE id = ?\<close> with \<open>fetchone\<close>.\<close>

definition select_review_by_id :: "int \<Rightarrow> database \<Rightarrow> review_row option" where
  "select_review_by_id i db = find (\<lambda>r. r_id r = i) (reviews db)"

text \<open>
  \<open>INSERT INTO reviews (anime_id, user_name, rating, review_text, status) VALUES (...)\<close>.
  The CHECK constraints are tested; the foreign key is tested only when the connection
  enforces foreign keys. \<open>user_name\<close> is NOT NULL, which every string satisfies.
\<close>

definition insert_review ::
  "connection \<Rightarrow> ReviewCreate \<Rightarrow> nat \<Rightarrow> database \<Rightarrow> sql_error + (int \<times> database)" where
  "insert_review c rv now db =
     (let i = next_rowid (reviews_seq db) (map r_id (reviews db));
          row = \<lparr>r_id = i, r_anime_id = rc_anime_id rv, r_user_name = rc_user_name rv,
                 r_rating = rc_rating rv, r_review_text = rc_review_text rv,
                 r_status = rc_status rv, r_created_at = now\<rparr>
      in case check_constraints row of
           Some e \<Rightarrow> Inl e
         | None \<Rightarrow>
             if foreign_keys c \<and> rc_anime_id rv \<notin> set (map a_id (anime db))
             then Inl (IntegrityError ''FOREIGN KEY constraint failed'')
             else Inr (i, db\<lparr>reviews := reviews db @ [row], reviews_seq := i\<rparr>))"

text \<open>
  \<open>UPDATE reviews SET <parts> WHERE id = ?\<close>, the parts being the assignments the
  handler collected, applied left to right. A CHECK constraint violated by the new row
  aborts the statement and leaves the table as it was.
\<close>

datatype assignment = SetRating rat | SetReviewText string | SetStatus string

fun assign :: "assignment \<Rightarrow> review_row \<Rightarrow> review_row" where
  "assign (SetRating v) r = r\<lparr>r_rating := v\<rparr>"
| "assign (SetReviewText t) r = r\<lparr>r_review_text := Some t\<rparr>"
| "assign (SetStatus s) r = r\<lparr>r_status := s\<rparr>"

fun update_rows :: "assignment list \<Rightarrow> int \<Rightarrow> review_row list \<Rightarrow> sql_error + review_row list" where
  "update_rows parts i [] = Inr []"
| "update_rows parts i (r # rs) =
     (if r_id r = i then
        (let r' = fold assign parts r
         in case check_constraints r' of
              Some e \<Rightarrow> Inl e
            | None \<Rightarrow> (case update_rows parts i rs of Inl e \<Rightarrow> Inl e | Inr rs' \<Rightarrow> Inr (r' # rs')))
      else (case update_rows parts i rs of Inl e \<Rightarrow> Inl e | Inr rs' \<Rightarrow> Inr (r # rs')))"

definition sql_update_review :: "assignment list \<Rightarrow> int \<Rightarrow> database \<Rightarrow> sql_error + database" where
  "sql_update_review parts i db =
     (case update_rows parts i (reviews db) of
        Inl e \<Rightarrow> Inl e
      | Inr rs \<Rightarrow> Inr (db\<lparr>reviews := rs\<rparr>))"

text \<open>\<open>DELETE FROM reviews WHERE id=?\<close>.\<close>

definition sql_delete_review :: "int \<Rightarrow> database \<Rightarrow> database" where
  "sql_delete_review i db = db\<lparr>reviews := filter (\<lambda>r. r_id r \<noteq> i) (reviews db)\<rparr>"

section \<open>Validation (the pydantic models of main.py)\<close>

text \<open>
  A validator returns its value or raises \<open>ValueError\<close> with a message. The framework
  validates the fields of a model in the order of their declaration and hands a validator
  the dictionary \<open>values\<close> of the fields validated before its own; the validators of one
  field run in the order of their definition and stop at the first that raises. The
  messages of all fields that failed make the 422 answer.
\<close>

datatype field_value = IntV int | StrV string | NumV rat

definition validate_rating :: "rat \<Rightarrow> string + rat" where
  "validate_rating v =
     (if v < 0 \<or> v > 10 then Inl ''Rating must be between 0 and 10'' else Inr v)"

definition validate_status :: "string \<Rightarrow> string + string" where
  "validate_status v =
     (if v \<notin> set [''watched'', ''planning''] then Inl ''Status must be watched or planning''
      else Inr v)"

definition validate_rating_with_status :: "rat \<Rightarrow> (string \<rightharpoonup> field_value) \<Rightarrow> string + rat" where
  "validate_rating_with_status v values =
     (if values ''status'' = Some (StrV ''planning'') \<and> v > 0
      then Inl ''Cannot rate anime with planning status'' else Inr v)"

text \<open>
  \<open>ReviewCreate\<close>: the fields are declared in the order \<open>anime_id\<close>, \<open>user_name\<close>,
  \<open>rating\<close>, \<open>review_text\<close>, \<open>status\<close>, so the validators of \<open>rating\<close> see the first
  two fields only. \<open>user_name: str\<close> carries no validator.
\<close>

definition errors_of :: "string + 'a \<Rightarrow> string list" where
  "errors_of x = (case x of Inl m \<Rightarrow> [m] | Inr _ \<Rightarrow> [])"

definition ReviewCreate_validate :: "ReviewCreate \<Rightarrow> error + ReviewCreate" where
  "ReviewCreate_validate rv =
     (let values = [''anime_id'' \<mapsto> IntV (rc_anime_id rv), ''user_name'' \<mapsto> StrV (rc_user_name rv)];
          rating_errors =
            (case validate_rating (rc_rating rv) of
               Inl m \<Rightarrow> [m]
             | Inr v \<Rightarrow> errors_of (validate_rating_with_status v values));
          status_errors = errors_of (validate_status (rc_status rv));
          errors = rating_errors @ status_errors
      in if errors = [] then Inr rv else Inl (ValidationError errors))"

text \<open>\<open>ReviewUpdate\<close>: one validator, on \<open>rating\<close>; none on \<open>status\<close>.\<close>

definition ReviewUpdate_validate_rating :: "rat option \<Rightarrow> string + rat option" where
  "ReviewUpdate_validate_rating v =
     (if v \<noteq> None \<and> (the v < 0 \<or> the v > 10) then Inl ''Rating must be between 0 and 10''
      else Inr v)"

definition ReviewUpdate_validate :: "ReviewUpdate \<Rightarrow> error + ReviewUpdate" where
  "ReviewUpdate_validate u =
     (let errors = errors_of (ReviewUpdate_validate_rating (ru_rating u))
      in if errors = [] then Inr u else Inl (ValidationError errors))"

text \<open>
  \<open>AnimeCreate\<close> declares the single field \<open>title\<close>. The JSON body of the request is
  taken as a map from member names to string values; members that are not fields of the
  model are dropped (the tests post a \<open>description\<close> member and expect 200).
\<close>

type_synonym json_body = "string \<rightharpoonup> string"

definition AnimeCreate_parse :: "json_body \<Rightarrow> error + AnimeCreate" where
  "AnimeCreate_parse body =
     (case body ''title'' of
        None \<Rightarrow> Inl (ValidationError [''field required''])
      | Some t \<Rightarrow> Inr \<lparr>ac_title = t\<rparr>)"

section \<open>The handlers that write\<close>

text \<open>
  A handler takes the database and returns its answer with the database it leaves
  behind. Every handler opens its own connection with \<open>get_db\<close>.
\<close>

text \<open>Python truthiness of an \<open>Optional[str]\<close>: \<open>None\<close> and the empty string are false.\<close>

definition truthy :: "string option \<Rightarrow> bool" where
  "truthy s = (case s of None \<Rightarrow> False | Some t \<Rightarrow> t \<noteq> [])"

definition create_anime ::
  "AnimeCreate \<Rightarrow> nat \<Rightarrow> database \<Rightarrow> (error + AnimeResponse) \<times> database" where
  "create_anime anime_req now db =
     (case insert_anime (ac_title anime_req) None now db of
        Inl e \<Rightarrow> (Inl (HTTPException 400 ''Anime with this title already exists''), db)
      | Inr (anime_id, db') \<Rightarrow>
          (case select_anime_by_id anime_id db' of
             None \<Rightarrow> (Inl UncaughtTypeError, db')
           | Some row \<Rightarrow>
               (Inr \<lparr>ar_id = a_id row, ar_title = a_title row,
                     ar_description = a_description row, ar_average_rating = None,
                     ar_total_reviews = 0, ar_latest_review_text = None,
                     ar_latest_review_user = None, ar_created_at = a_created_at row\<rparr>, db')))"

text \<open>
  The path parameter of the two delete routes is a Python \<open>int\<close> of any size, and the
  handlers bind it to the DELETE as it comes. SQLite's INTEGER is a signed 64-bit number:
  for an integer outside that range the driver raises \<open>OverflowError\<close> when it binds the
  parameter, before the statement runs, and the handlers do not catch it. The other
  handlers that take an id (\<open>get_anime\<close>, \<open>create_review\<close>, \<open>update_review\<close>) bind it in
  the same way; the statements about them below concern ids that storage holds, which
  are within the range, and their models leave the bind failure out.
\<close>

definition sqlite_integer :: "int \<Rightarrow> bool" where
  "sqlite_integer i \<longleftrightarrow> - (2 ^ 63) \<le> i \<and> i < 2 ^ 63"

definition delete_anime ::
  "int \<Rightarrow> database \<Rightarrow> (error + (string \<times> bool) list) \<times> database" where
  "delete_anime anime_id db =
     (if \<not> sqlite_integer anime_id then (Inl UncaughtOverflowError, db)
      else (Inr [(''ok'', True)], sql_delete_anime get_db anime_id db))"

definition create_review ::
  "ReviewCreate \<Rightarrow> nat \<Rightarrow> database \<Rightarrow> (error + ReviewResponse) \<times> database" where
  "create_review review now db =
     (case select_anime_by_id (rc_anime_id review) db of
        None \<Rightarrow> (Inl (HTTPException 404 ''Anime not found''), db)
      | Some anime_exists \<Rightarrow>
          if rc_status review = ''planning'' \<and> rc_rating review > 0
          then (Inl (HTTPException 400 ''Cannot rate anime with planning status''), db)
          else
            (case insert_review get_db review now db of
               Inl (IntegrityError m) \<Rightarrow> (Inl (UncaughtIntegrityError m), db)
             | Inr (review_id, db') \<Rightarrow>
                 (case select_review_by_id review_id db' of
                    None \<Rightarrow> (Inl UncaughtTypeError, db')
                  | Some row \<Rightarrow> (Inr row, db'))))"

text \<open>
  The three values \<open>update_review\<close> computes from the request and the stored row: the
  merged status and rating (lines 232 and 233) and the SET list (lines 239 to 252).
\<close>

definition current_status :: "ReviewUpdate \<Rightarrow> review_row \<Rightarrow> string" where
  "current_status review_update current_review =
     (if truthy (ru_status review_update) then the (ru_status review_update)
      else r_status current_review)"

definition new_rating :: "ReviewUpdate \<Rightarrow> review_row \<Rightarrow> rat" where
  "new_rating review_update current_review =
     (if ru_rating review_update \<noteq> None then the (ru_rating review_update)
      else r_rating current_review)"

definition update_parts :: "ReviewUpdate \<Rightarrow> assignment list" where
  "update_parts review_update =
     (if ru_rating review_update \<noteq> None
      then [SetRating (the (ru_rating review_update))] else [])
     @ (if ru_review_text review_update \<noteq> None
        then [SetReviewText (the (ru_review_text review_update))] else [])
     @ (if truthy (ru_status review_update)
        then [SetStatus (the (ru_status review_update))] else [])"

definition update_review ::
  "int \<Rightarrow> ReviewUpdate \<Rightarrow> database \<Rightarrow> (error + ReviewResponse) \<times> database" where
  "update_review review_id review_update db =
     (case select_review_by_id review_id db of
        None \<Rightarrow> (Inl (HTTPException 404 ''Review not found''), db)
      | Some current_review \<Rightarrow>
          if current_status review_update current_review = ''planning''
             \<and> new_rating review_update current_review > 0
          then (Inl (HTTPException 400 ''Cannot rate anime with planning status''), db)
          else
            (case (if update_parts review_update \<noteq> []
                   then sql_update_review (update_parts review_update) review_id db
                   else Inr db) of
               Inl (IntegrityError m) \<Rightarrow> (Inl (UncaughtIntegrityError m), db)
             | Inr db' \<Rightarrow>
                 (case select_review_by_id review_id db' of
                    None \<Rightarrow> (Inl UncaughtTypeError, db')
                  | Some row \<Rightarrow> (Inr row, db'))))"

definition delete_review ::
  "int \<Rightarrow> database \<Rightarrow> (error + (string \<times> bool) list) \<times> database" where
  "delete_review review_id db =
     (if \<not> sqlite_integer review_id then (Inl UncaughtOverflowError, db)
      else (Inr [(''ok'', True)], sql_delete_review review_id db))"

text \<open>
  The routes as a client reaches them: the framework builds the model from the body,
  answers 422 itself when a validator raises, and calls the handler otherwise.
\<close>

definition post_api_anime ::
  "json_body \<Rightarrow> nat \<Rightarrow> database \<Rightarrow> (error + AnimeResponse) \<times> database" where
  "post_api_anime body now db =
     (case AnimeCreate_parse body of
        Inl e \<Rightarrow> (Inl e, db)
      | Inr anime_req \<Rightarrow> create_anime anime_req now db)"

definition post_api_reviews ::
  "ReviewCreate \<Rightarrow> nat \<Rightarrow> database \<Rightarrow> (error + ReviewResponse) \<times> database" where
  "post_api_reviews body now db =
     (case ReviewCreate_validate body of
        Inl e \<Rightarrow> (Inl e, db)
      | Inr review \<Rightarrow> create_review review now db)"

definition patch_api_reviews ::
  "int \<Rightarrow> ReviewUpdate \<Rightarrow> database \<Rightarrow> (error + ReviewResponse) \<times> database" where
  "patch_api_reviews review_id body db =
     (case ReviewUpdate_validate body of
        Inl e \<Rightarrow> (Inl e, db)
      | Inr review_update \<Rightarrow> update_review review_id review_update db)"

section \<open>The handlers that read\<close>

subsection \<open>The pieces of SQL the queries use\<close>

text \<open>
  \<open>FROM anime a LEFT JOIN reviews r ON a.id = r.anime_id\<close>: every title with each of
  its reviews, and with NULLs in the review columns when it has none.
  \<open>INNER JOIN\<close> drops the titles without a review.
\<close>

definition left_join_rows :: "anime_row \<Rightarrow> review_row list \<Rightarrow> (anime_row \<times> review_row option) list" where
  "left_join_rows a rs =
     (let ms = filter (\<lambda>r. a_id a = r_anime_id r) rs
      in if ms = [] then [(a, None)] else map (\<lambda>r. (a, Some r)) ms)"

definition left_join :: "anime_row list \<Rightarrow> review_row list \<Rightarrow> (anime_row \<times> review_row option) list" where
  "left_join as rs = concat (map (\<lambda>a. left_join_rows a rs) as)"

definition inner_join :: "anime_row list \<Rightarrow> review_row list \<Rightarrow> (anime_row \<times> review_row) list" where
  "inner_join as rs =
     concat (map (\<lambda>a. map (\<lambda>r. (a, r)) (filter (\<lambda>r. a_id a = r_anime_id r) rs)) as)"

text \<open>\<open>GROUP BY\<close>: one group for each distinct key, holding the rows with that key.\<close>

definition group_by :: "('a \<Rightarrow> 'k) \<Rightarrow> 'a list \<Rightarrow> ('k \<times> 'a list) list" where
  "group_by key rows = map (\<lambda>k. (k, filter (\<lambda>x. key x = k) rows)) (remdups (map key rows))"

text \<open>
  \<open>AVG\<close> skips NULLs and is NULL when nothing is left; \<open>COUNT(x)\<close> counts the rows
  where \<open>x\<close> is not NULL.
\<close>

definition sql_avg :: "rat option list \<Rightarrow> rat option" where
  "sql_avg vs =
     (let xs = concat (map (\<lambda>v. case v of None \<Rightarrow> [] | Some x \<Rightarrow> [x]) vs)
      in if xs = [] then None else Some (sum_list xs / of_nat (length xs)))"

definition sql_count :: "'a option list \<Rightarrow> int" where
  "sql_count vs = int (length (filter (\<lambda>v. v \<noteq> None) vs))"

text \<open>
  \<open>ORDER BY key DESC\<close>, as a stable insertion sort: a row is put before the first row
  whose key is not larger than its own, so rows with equal keys stay in the order in
  which they came (the order SQLite's sorter returns; SQL itself leaves ties open). NULL
  sorts below every value, which is the order of \<open>option\<close> with \<open>None\<close> least.
\<close>

fun insert_desc :: "('a \<Rightarrow> 'k::linorder) \<Rightarrow> 'a \<Rightarrow> 'a list \<Rightarrow> 'a list" where
  "insert_desc key x [] = [x]"
| "insert_desc key x (y # ys) =
     (if key x < key y then y # insert_desc key x ys else x # y # ys)"

definition order_by_desc :: "('a \<Rightarrow> 'k::linorder) \<Rightarrow> 'a list \<Rightarrow> 'a list" where
  "order_by_desc key rows = foldr (insert_desc key) rows []"

text \<open>
  \<open>LOWER\<close> folds the 26 ASCII capitals and leaves every other byte; \<open>TRIM\<close> removes
  space characters (0x20) from both ends.
\<close>

definition sql_lower :: "string \<Rightarrow> string" where
  "sql_lower s =
     map (\<lambda>c. case map_of (zip ''ABCDEFGHIJKLMNOPQRSTUVWXYZ'' ''abcdefghijklmnopqrstuvwxyz'') c of
                 None \<Rightarrow> c | Some l \<Rightarrow> l) s"

definition sql_trim :: "string \<Rightarrow> string" where
  "sql_trim s = rev (dropWhile (\<lambda>c. c = CHR '' '') (rev (dropWhile (\<lambda>c. c = CHR '' '') s)))"

subsection \<open>Titles with their aggregates\<close>

text \<open>
  The scalar subqueries
  \<open>(SELECT review_text FROM reviews WHERE anime_id = a.id ORDER BY created_at DESC LIMIT 1)\<close>
  and the same for \<open>user_name\<close>.
\<close>

definition latest_review :: "int \<Rightarrow> database \<Rightarrow> review_row option" where
  "latest_review i db =
     (case order_by_desc r_created_at (filter (\<lambda>r. r_anime_id r = i) (reviews db)) of
        [] \<Rightarrow> None
      | r # _ \<Rightarrow> Some r)"

text \<open>
  The select list over one group of the join. The columns of \<open>a\<close> are read from a row of
  the group, \<open>AVG\<close> runs over \<open>CASE WHEN r.status = 'watched' THEN r.rating ELSE NULL END\<close>
  and \<open>COUNT\<close> over \<open>r.id\<close>.
\<close>

definition watched_rating :: "review_row option \<Rightarrow> rat option" where
  "watched_rating r =
     (case r of None \<Rightarrow> None
      | Some x \<Rightarrow> if r_status x = ''watched'' then Some (r_rating x) else None)"

definition anime_select :: "database \<Rightarrow> (anime_row \<times> review_row option) list \<Rightarrow> AnimeResponse option" where
  "anime_select db g =
     (case g of
        [] \<Rightarrow> None
      | (a, _) # _ \<Rightarrow>
          Some \<lparr>ar_id = a_id a, ar_title = a_title a, ar_description = a_description a,
                ar_average_rating = sql_avg (map (watched_rating \<circ> snd) g),
                ar_total_reviews = sql_count (map (map_option r_id \<circ> snd) g),
                ar_latest_review_text = Option.bind (latest_review (a_id a) db) r_review_text,
                ar_latest_review_user = map_option r_user_name (latest_review (a_id a) db),
                ar_created_at = a_created_at a\<rparr>)"

definition get_all_anime :: "database \<Rightarrow> AnimeResponse list" where
  "get_all_anime db =
     order_by_desc ar_created_at
       (List.map_filter (anime_select db \<circ> snd)
          (group_by (a_id \<circ> fst) (left_join (anime db) (reviews db))))"

definition get_anime :: "int \<Rightarrow> database \<Rightarrow> error + AnimeWithReviews" where
  "get_anime anime_id db =
     (case List.map_filter (anime_select db \<circ> snd)
             (group_by (a_id \<circ> fst)
                (filter (\<lambda>(a, r). a_id a = anime_id) (left_join (anime db) (reviews db)))) of
        [] \<Rightarrow> Inl (HTTPException 404 ''Anime not found'')
      | anime_row # _ \<Rightarrow>
          Inr \<lparr>aw_anime = anime_row,
               aw_reviews = order_by_desc r_created_at
                              (filter (\<lambda>r. r_anime_id r = anime_id) (reviews db))\<rparr>)"

subsection \<open>The ranking\<close>

record stats_row =
  normalized_title :: string
  display_title :: string
  average_rating :: "rat option"
  review_count :: int

record stats_entry =
  se_title :: string
  se_average_rating :: "rat option"
  se_review_count :: int

text \<open>
  The rows of the cursor of \<open>get_stats\<close>: the join filtered by
  \<open>WHERE r.status = 'watched'\<close>, grouped by \<open>LOWER(TRIM(a.title))\<close>, \<open>HAVING COUNT(r.id) > 0\<close>,
  ordered by the average. \<open>display_title\<close> is not in the GROUP BY: it is read from a row
  of the group.
\<close>

definition stats_select :: "string \<times> (anime_row \<times> review_row) list \<Rightarrow> stats_row option" where
  "stats_select kg =
     (case snd kg of
        [] \<Rightarrow> None
      | (a, _) # _ \<Rightarrow>
          Some \<lparr>normalized_title = fst kg, display_title = a_title a,
                average_rating = sql_avg (map (\<lambda>(a, r). Some (r_rating r)) (snd kg)),
                review_count = sql_count (map (\<lambda>(a, r). Some (r_id r)) (snd kg))\<rparr>)"

definition title_key :: "string \<Rightarrow> string" where
  "title_key t = sql_lower (sql_trim t)"

definition get_stats_rows :: "database \<Rightarrow> stats_row list" where
  "get_stats_rows db =
     order_by_desc average_rating
       (filter (\<lambda>row. review_count row > 0)
          (List.map_filter stats_select
             (group_by (\<lambda>(a, r). title_key (a_title a))
                (filter (\<lambda>(a, r). r_status r = ''watched'')
                   (inner_join (anime db) (reviews db))))))"

definition get_stats :: "database \<Rightarrow> stats_entry list" where
  "get_stats db =
     map (\<lambda>row. \<lparr>se_title = display_title row, se_average_rating = average_rating row,
                  se_review_count = review_count row\<rparr>) (get_stats_rows db)"

section \<open>The notions the specification states the aggregates with\<close>

text \<open>
  The definitions of this section follow the words of the specification and of the
  statements below, not the queries: the arithmetic mean of a list of ratings, absent
  for the empty list; the reviews of a title; the normalized key of a title; and the
  watched reviews that belong to the titles with a given normalized key.
\<close>

definition arithmetic_mean :: "rat list \<Rightarrow> rat option" where
  "arithmetic_mean xs = (if xs = [] then None else Some (sum_list xs / of_nat (length xs)))"

definition reviews_of_title :: "database \<Rightarrow> int \<Rightarrow> review_row list" where
  "reviews_of_title db i = filter (\<lambda>r. r_anime_id r = i) (reviews db)"

text \<open>
  The normalized key of a title, as the ranking is stated below: the title without the
  space characters (byte 0x20) at its two ends, each of the 26 ASCII capitals (codes 65
  to 90) replaced by the letter 32 codes above it. Every other byte stays as it is: a
  tab at an end is kept, and no letter outside ASCII changes. Nothing here refers to the
  functions the query is modelled with.
\<close>

fun strip_leading_spaces :: "string \<Rightarrow> string" where
  "strip_leading_spaces [] = []"
| "strip_leading_spaces (c # cs) =
     (if c = CHR '' '' then strip_leading_spaces cs else c # cs)"

fun strip_trailing_spaces :: "string \<Rightarrow> string" where
  "strip_trailing_spaces [] = []"
| "strip_trailing_spaces (c # cs) =
     (let rest = strip_trailing_spaces cs
      in if c = CHR '' '' \<and> rest = [] then [] else c # rest)"

definition ascii_fold :: "char \<Rightarrow> char" where
  "ascii_fold c =
     (if (65::nat) \<le> of_char c \<and> of_char c \<le> (90::nat) then char_of (of_char c + (32::nat))
      else c)"

definition normalized_key :: "string \<Rightarrow> string" where
  "normalized_key t = map ascii_fold (strip_trailing_spaces (strip_leading_spaces t))"

definition watched_reviews_of_key :: "database \<Rightarrow> string \<Rightarrow> review_row list" where
  "watched_reviews_of_key db k =
     filter (\<lambda>r. r_status r = ''watched'' \<and>
                 (\<exists>a \<in> set (anime db). a_id a = r_anime_id r \<and> normalized_key (a_title a) = k))
       (reviews db)"

text \<open>
  The key in the words of the claim about the ranking, "lowercased, whitespace-trimmed".
  Whitespace is space, tab, line feed, vertical tab, form feed and carriage return.
  Lowercasing folds the ASCII capitals and, titles being UTF-8 text, the capitals of the
  Latin-1 range: the two-byte characters C3 80 to C3 9E (C3 97, the multiplication sign,
  left out), whose lower case is 32 above in the second byte.
\<close>

definition is_whitespace :: "char \<Rightarrow> bool" where
  "is_whitespace c \<longleftrightarrow>
     c \<in> set [CHR 0x20, CHR 0x09, CHR 0x0A, CHR 0x0B, CHR 0x0C, CHR 0x0D]"

definition whitespace_trimmed :: "string \<Rightarrow> string" where
  "whitespace_trimmed s = rev (dropWhile is_whitespace (rev (dropWhile is_whitespace s)))"

fun lowercased :: "string \<Rightarrow> string" where
  "lowercased [] = []"
| "lowercased [c] = [ascii_fold c]"
| "lowercased (c # d # cs) =
     (if c = CHR 0xC3 \<and> (128::nat) \<le> of_char d \<and> of_char d \<le> (158::nat)
         \<and> of_char d \<noteq> (151::nat)
      then c # char_of (of_char d + (32::nat)) # lowercased cs
      else ascii_fold c # lowercased (d # cs))"

definition claimed_key :: "string \<Rightarrow> string" where
  "claimed_key t = lowercased (whitespace_trimmed t)"

text \<open>
  The Aggregate of a title (\<open>computeAggregate\<close> in the specification): the average is
  the mean over the title's watched reviews, the total counts all its reviews; the two
  latest-review fields are those of \<open>latest_review\<close>.
\<close>

definition computeAggregate :: "database \<Rightarrow> anime_row \<Rightarrow> AnimeResponse" where
  "computeAggregate db a =
     \<lparr>ar_id = a_id a, ar_title = a_title a, ar_description = a_description a,
      ar_average_rating =
        arithmetic_mean
          (map r_rating (filter (\<lambda>r. r_status r = ''watched'') (reviews_of_title db (a_id a)))),
      ar_total_reviews = int (length (reviews_of_title db (a_id a))),
      ar_latest_review_text = Option.bind (latest_review (a_id a) db) r_review_text,
      ar_latest_review_user = map_option r_user_name (latest_review (a_id a) db),
      ar_created_at = a_created_at a\<rparr>"

text \<open>The primary key of the anime table: no two rows share an id.\<close>

definition anime_ids_unique :: "database \<Rightarrow> bool" where
  "anime_ids_unique db \<longleftrightarrow> distinct (map a_id (anime db))"

text \<open>The UNIQUE constraint of the title column: no two rows share a title.\<close>

definition anime_titles_unique :: "database \<Rightarrow> bool" where
  "anime_titles_unique db \<longleftrightarrow> distinct (map a_title (anime db))"

section \<open>Sample data\<close>

text \<open>
  The examples of the specification: a title with two watched reviews (8 and 10) and a
  planning one, and a title with a single planning review.
\<close>

definition naruto_reviews :: "review_row list" where
  "naruto_reviews =
     [\<lparr>r_id = 1, r_anime_id = 1, r_user_name = ''ann'', r_rating = 8,
        r_review_text = Some ''good'', r_status = ''watched'', r_created_at = 11\<rparr>,
      \<lparr>r_id = 2, r_anime_id = 1, r_user_name = ''bob'', r_rating = 10,
        r_review_text = None, r_status = ''watched'', r_created_at = 12\<rparr>,
      \<lparr>r_id = 3, r_anime_id = 1, r_user_name = ''cyd'', r_rating = 0,
        r_review_text = None, r_status = ''planning'', r_created_at = 13\<rparr>]"

definition sample_db :: database where
  "sample_db =
     \<lparr>anime =
        [\<lparr>a_id = 1, a_title = ''Naruto'', a_description = None, a_created_at = 10\<rparr>,
         \<lparr>a_id = 2, a_title = ''Bleach'', a_description = None, a_created_at = 20\<rparr>],
      reviews = naruto_reviews @
        [\<lparr>r_id = 4, r_anime_id = 2, r_user_name = ''dee'', r_rating = 0,
           r_review_text = None, r_status = ''planning'', r_created_at = 21\<rparr>],
      anime_seq = 2, reviews_seq = 4\<rparr>"

text \<open>
  The ranking example of the specification, title 1 with watched ratings 10 and 8 and
  title 2 with the watched rating 6; beside them, title 3 with a planning review only,
  title 4 without reviews, and title 5, whose name differs from that of title 1 in case
  and in spaces at its ends, with the watched rating 3.
\<close>

definition ranking_db :: database where
  "ranking_db =
     \<lparr>anime =
        [\<lparr>a_id = 1, a_title = ''Naruto'', a_description = None, a_created_at = 10\<rparr>,
         \<lparr>a_id = 2, a_title = ''Bleach'', a_description = None, a_created_at = 20\<rparr>,
         \<lparr>a_id = 3, a_title = ''One Piece'', a_description = None, a_created_at = 30\<rparr>,
         \<lparr>a_id = 4, a_title = ''Monster'', a_description = None, a_created_at = 40\<rparr>,
         \<lparr>a_id = 5, a_title = '' NARUTO  '', a_description = None, a_created_at = 50\<rparr>],
      reviews =
        [\<lparr>r_id = 1, r_anime_id = 2, r_user_name = ''ann'', r_rating = 6,
           r_review_text = None, r_status = ''watched'', r_created_at = 21\<rparr>,
         \<lparr>r_id = 2, r_anime_id = 1, r_user_name = ''bob'', r_rating = 10,
           r_review_text = None, r_status = ''watched'', r_created_at = 22\<rparr>,
         \<lparr>r_id = 3, r_anime_id = 3, r_user_name = ''cyd'', r_rating = 0,
           r_review_text = None, r_status = ''planning'', r_created_at = 31\<rparr>,
         \<lparr>r_id = 4, r_anime_id = 1, r_user_name = ''dee'', r_rating = 8,
           r_review_text = None, r_status = ''watched'', r_created_at = 32\<rparr>,
         \<lparr>r_id = 5, r_anime_id = 5, r_user_name = ''eve'', r_rating = 3,
           r_review_text = None, r_status = ''watched'', r_created_at = 51\<rparr>],
      anime_seq = 5, reviews_seq = 5\<rparr>"

text \<open>
  Four titles with a watched review each: \<open>naruto\<close>, the same behind a tab, and the
  French word for school in capitals and in small letters, its first letter (E with acute
  accent) being C3 89 and C3 A9 in UTF-8.
\<close>

definition variant_titles_db :: database where
  "variant_titles_db =
     \<lparr>anime =
        [\<lparr>a_id = 1, a_title = ''naruto'', a_description = None, a_created_at = 10\<rparr>,
         \<lparr>a_id = 2, a_title = CHR 0x09 # ''naruto'', a_description = None,
            a_created_at = 20\<rparr>,
         \<lparr>a_id = 3, a_title = [CHR 0xC3, CHR 0x89] @ ''COLE'', a_description = None,
            a_created_at = 30\<rparr>,
         \<lparr>a_id = 4, a_title = [CHR 0xC3, CHR 0xA9] @ ''cole'', a_description = None,
            a_created_at = 40\<rparr>],
      reviews =
        [\<lparr>r_id = 1, r_anime_id = 1, r_user_name = ''ann'', r_rating = 9,
           r_review_text = None, r_status = ''watched'', r_created_at = 11\<rparr>,
         \<lparr>r_id = 2, r_anime_id = 2, r_user_name = ''bob'', r_rating = 8,
           r_review_text = None, r_status = ''watched'', r_created_at = 21\<rparr>,
         \<lparr>r_id = 3, r_anime_id = 3, r_user_name = ''cyd'', r_rating = 7,
           r_review_text = None, r_status = ''watched'', r_created_at = 31\<rparr>,
         \<lparr>r_id = 4, r_anime_id = 4, r_user_name = ''dee'', r_rating = 6,
           r_review_text = None, r_status = ''watched'', r_created_at = 41\<rparr>],
      anime_seq = 4, reviews_seq = 4\<rparr>"

section \<open>Fresh row identifiers\<close>

lemma fold_max_ge_start: "s \<le> fold max ids (s::int)"
proof (induction ids arbitrary: s)
  case Nil show ?case by simp
next
  case (Cons x xs)
  have "s \<le> max x s" by simp
  also have "\<dots> \<le> fold max xs (max x s)" by (rule Cons.IH)
  finally show ?case by simp
qed

lemma fold_max_ge_member: "x \<in> set ids \<Longrightarrow> x \<le> fold max ids (s::int)"
proof (induction ids arbitrary: s)
  case Nil then show ?case by simp
next
  case (Cons y ys)
  show ?case
  proof (cases "x = y")
    case True
    have "x \<le> max y s" using True by simp
    also have "\<dots> \<le> fold max ys (max y s)" by (rule fold_max_ge_start)
    finally show ?thesis by simp
  next
    case False
    with Cons.prems have "x \<in> set ys" by simp
    then show ?thesis using Cons.IH by simp
  qed
qed

lemma next_rowid_fresh: "next_rowid seq ids \<notin> set ids"
proof
  assume "next_rowid seq ids \<in> set ids"
  then have "next_rowid seq ids \<le> fold max ids seq" by (rule fold_max_ge_member)
  then show False by (simp add: next_rowid_def)
qed

lemma find_append_fresh:
  "\<forall>x \<in> set xs. \<not> P x \<Longrightarrow> P y \<Longrightarrow> find P (xs @ [y]) = Some y"
  by (induction xs) auto

lemma select_after_insert_anime:
  assumes "insert_anime t d now db = Inr (i, db')"
  shows "select_anime_by_id i db' =
           Some \<lparr>a_id = i, a_title = t, a_description = d, a_created_at = now\<rparr>"
    and "db' = db\<lparr>anime := anime db @ [\<lparr>a_id = i, a_title = t, a_description = d, a_created_at = now\<rparr>],
                  anime_seq := i\<rparr>"
    and "t \<notin> set (map a_title (anime db))"
proof -
  from assms have fresh: "t \<notin> set (map a_title (anime db))"
    by (auto simp: insert_anime_def split: if_splits)
  from assms fresh have i: "i = next_rowid (anime_seq db) (map a_id (anime db))"
    by (auto simp: insert_anime_def Let_def)
  from assms fresh show db': "db' = db\<lparr>anime := anime db @ [\<lparr>a_id = i, a_title = t, a_description = d, a_created_at = now\<rparr>],
                  anime_seq := i\<rparr>"
    by (auto simp: insert_anime_def Let_def)
  have "\<forall>a \<in> set (anime db). a_id a \<noteq> i"
    using next_rowid_fresh[of "anime_seq db" "map a_id (anime db)"] i by (metis imageI set_map)
  then show "select_anime_by_id i db' =
           Some \<lparr>a_id = i, a_title = t, a_description = d, a_created_at = now\<rparr>"
    unfolding select_anime_by_id_def db' by (simp add: find_append_fresh)
  show "t \<notin> set (map a_title (anime db))" by (rule fresh)
qed

section \<open>Creating titles\<close>

lemma create_anime_duplicate:
  "t \<in> set (map a_title (anime db)) \<Longrightarrow>
   create_anime \<lparr>ac_title = t\<rparr> now db = (Inl DuplicateTitle, db)"
  by (simp add: create_anime_def insert_anime_def DuplicateTitle_def)

lemma create_anime_success:
  assumes "create_anime req now db = (Inr resp, db')"
  shows "\<exists>i. insert_anime (ac_title req) None now db = Inr (i, db') \<and>
             resp = \<lparr>ar_id = i, ar_title = ac_title req, ar_description = None,
                      ar_average_rating = None, ar_total_reviews = 0,
                      ar_latest_review_text = None, ar_latest_review_user = None,
                      ar_created_at = now\<rparr>"
proof (cases "insert_anime (ac_title req) None now db")
  case (Inl e)
  with assms show ?thesis by (simp add: create_anime_def)
next
  case (Inr p)
  obtain i db1 where p: "p = (i, db1)" by (cases p)
  note sel = select_after_insert_anime(1)[OF Inr[unfolded p]]
  from assms Inr p sel show ?thesis by (auto simp: create_anime_def)
qed

text \<open>
  Claim C6. When a title creation has succeeded, a second creation request with the
  identical title string fails with \<open>DuplicateTitle\<close> and returns the database as it
  was: the title's only record is the one the first request stored, unmodified.
\<close>

theorem duplicate_title_rejected:
  assumes "create_anime first now1 db = (Inr resp, db1)"
    and "ac_title second = ac_title first"
  shows "create_anime second now2 db1 = (Inl DuplicateTitle, db1) \<and>
         filter (\<lambda>a. a_title a = ac_title first) (anime db1) =
           [\<lparr>a_id = ar_id resp, a_title = ac_title first, a_description = None,
              a_created_at = now1\<rparr>]"
proof -
  from create_anime_success[OF assms(1)] obtain i where
    ins: "insert_anime (ac_title first) None now1 db = Inr (i, db1)" and
    resp: "ar_id resp = i" by auto
  note facts = select_after_insert_anime[OF ins]
  have in_db1: "ac_title first \<in> set (map a_title (anime db1))"
    by (subst facts(2)) simp
  have "second = \<lparr>ac_title = ac_title first\<rparr>" using assms(2) by simp
  then have dup: "create_anime second now2 db1 = (Inl DuplicateTitle, db1)"
    using create_anime_duplicate[OF in_db1, of now2] by simp
  have "filter (\<lambda>a. a_title a = ac_title first) (anime db) = []"
    using facts(3) by (metis (mono_tags, lifting) filter_False imageI set_map)
  then have "filter (\<lambda>a. a_title a = ac_title first) (anime db1) =
           [\<lparr>a_id = i, a_title = ac_title first, a_description = None, a_created_at = now1\<rparr>]"
    by (subst facts(2)) simp
  with dup resp show ?thesis by simp
qed

theorem duplicate_title_rejected_witness:
  "create_anime \<lparr>ac_title = ''Naruto''\<rparr> 5 init_db =
     (Inr \<lparr>ar_id = 1, ar_title = ''Naruto'', ar_description = None,
           ar_average_rating = None, ar_total_reviews = 0,
           ar_latest_review_text = None, ar_latest_review_user = None, ar_created_at = 5\<rparr>,
      \<lparr>anime = [\<lparr>a_id = 1, a_title = ''Naruto'', a_description = None, a_created_at = 5\<rparr>],
        reviews = [], anime_seq = 1, reviews_seq = 0\<rparr>)
   \<and> create_anime \<lparr>ac_title = ''Naruto''\<rparr> 9
       \<lparr>anime = [\<lparr>a_id = 1, a_title = ''Naruto'', a_description = None, a_created_at = 5\<rparr>],
        reviews = [], anime_seq = 1, reviews_seq = 0\<rparr> =
     (Inl DuplicateTitle,
      \<lparr>anime = [\<lparr>a_id = 1, a_title = ''Naruto'', a_description = None, a_created_at = 5\<rparr>],
        reviews = [], anime_seq = 1, reviews_seq = 0\<rparr>)"
proof -
  have first: "create_anime \<lparr>ac_title = ''Naruto''\<rparr> 5 init_db =
     (Inr \<lparr>ar_id = 1, ar_title = ''Naruto'', ar_description = None,
           ar_average_rating = None, ar_total_reviews = 0,
           ar_latest_review_text = None, ar_latest_review_user = None, ar_created_at = 5\<rparr>,
      \<lparr>anime = [\<lparr>a_id = 1, a_title = ''Naruto'', a_description = None, a_created_at = 5\<rparr>],
        reviews = [], anime_seq = 1, reviews_seq = 0\<rparr>)"
    by (simp add: create_anime_def insert_anime_def init_db_def next_rowid_def
        select_anime_by_id_def)
  from duplicate_title_rejected[OF first, of "\<lparr>ac_title = ''Naruto''\<rparr>" 9] first
  show ?thesis by simp
qed

text \<open>
  Claim C8. A title creation request stores a title whose description is NULL whatever
  the body says: a \<open>description\<close> member of the body changes nothing, and a successful
  creation answers with description, average_rating, latest_review_text and
  latest_review_user null and total_reviews 0.
\<close>

theorem created_title_has_no_description:
  "post_api_anime (body(''description'' \<mapsto> d)) now db = post_api_anime body now db \<and>
   (post_api_anime body now db = (Inr resp, db') \<longrightarrow>
      ar_description resp = None \<and> ar_average_rating resp = None \<and>
      ar_total_reviews resp = 0 \<and> ar_latest_review_text resp = None \<and>
      ar_latest_review_user resp = None \<and>
      map_option a_description (select_anime_by_id (ar_id resp) db') = Some None)"
proof (intro conjI impI)
  show "post_api_anime (body(''description'' \<mapsto> d)) now db = post_api_anime body now db"
    by (simp add: post_api_anime_def AnimeCreate_parse_def)
next
  assume ok: "post_api_anime body now db = (Inr resp, db')"
  then obtain req where "create_anime req now db = (Inr resp, db')"
    by (auto simp: post_api_anime_def split: sum.splits)
  from create_anime_success[OF this] obtain i where
    ins: "insert_anime (ac_title req) None now db = Inr (i, db')" and
    resp: "resp = \<lparr>ar_id = i, ar_title = ac_title req, ar_description = None,
                    ar_average_rating = None, ar_total_reviews = 0,
                    ar_latest_review_text = None, ar_latest_review_user = None,
                    ar_created_at = now\<rparr>" by auto
  show "ar_description resp = None" by (simp add: resp)
  show "ar_average_rating resp = None" by (simp add: resp)
  show "ar_total_reviews resp = 0" by (simp add: resp)
  show "ar_latest_review_text resp = None" by (simp add: resp)
  show "ar_latest_review_user resp = None" by (simp add: resp)
  show "map_option a_description (select_anime_by_id (ar_id resp) db') = Some None"
    using select_after_insert_anime(1)[OF ins] by (simp add: resp)
qed

theorem created_title_has_no_description_witness:
  "post_api_anime [''title'' \<mapsto> ''Naruto'', ''description'' \<mapsto> ''Ninja story''] 5 init_db =
     (Inr \<lparr>ar_id = 1, ar_title = ''Naruto'', ar_description = None,
           ar_average_rating = None, ar_total_reviews = 0,
           ar_latest_review_text = None, ar_latest_review_user = None, ar_created_at = 5\<rparr>,
      \<lparr>anime = [\<lparr>a_id = 1, a_title = ''Naruto'', a_description = None, a_created_at = 5\<rparr>],
        reviews = [], anime_seq = 1, reviews_seq = 0\<rparr>)
   \<and> map_option a_description (select_anime_by_id 1
        \<lparr>anime = [\<lparr>a_id = 1, a_title = ''Naruto'', a_description = None, a_created_at = 5\<rparr>],
         reviews = [], anime_seq = 1, reviews_seq = 0\<rparr>) = Some None"
proof -
  have run: "post_api_anime [''title'' \<mapsto> ''Naruto'', ''description'' \<mapsto> ''Ninja story''] 5 init_db =
     (Inr \<lparr>ar_id = 1, ar_title = ''Naruto'', ar_description = None,
           ar_average_rating = None, ar_total_reviews = 0,
           ar_latest_review_text = None, ar_latest_review_user = None, ar_created_at = 5\<rparr>,
      \<lparr>anime = [\<lparr>a_id = 1, a_title = ''Naruto'', a_description = None, a_created_at = 5\<rparr>],
        reviews = [], anime_seq = 1, reviews_seq = 0\<rparr>)"
    by (simp add: post_api_anime_def AnimeCreate_parse_def create_anime_def insert_anime_def
        init_db_def next_rowid_def select_anime_by_id_def)
  from created_title_has_no_description
         [where body = "[''title'' \<mapsto> ''Naruto'']" and d = "''Ninja story''" and now = 5
            and db = init_db
            and resp = "\<lparr>ar_id = 1, ar_title = ''Naruto'', ar_description = None,
                         ar_average_rating = None, ar_total_reviews = 0,
                         ar_latest_review_text = None, ar_latest_review_user = None,
                         ar_created_at = 5\<rparr>"
            and db' = "\<lparr>anime = [\<lparr>a_id = 1, a_title = ''Naruto'', a_description = None,
                                   a_created_at = 5\<rparr>],
                        reviews = [], anime_seq = 1, reviews_seq = 0\<rparr>"] run
  show ?thesis by simp
qed

section \<open>Deleting\<close>

lemma delete_anime_in_range:
  "sqlite_integer anime_id \<Longrightarrow>
   delete_anime anime_id db = (Inr [(''ok'', True)], sql_delete_anime get_db anime_id db)"
  by (simp add: delete_anime_def)

lemma delete_review_in_range:
  "sqlite_integer review_id \<Longrightarrow>
   delete_review review_id db = (Inr [(''ok'', True)], sql_delete_review review_id db)"
  by (simp add: delete_review_def)

lemma sql_delete_anime_missing:
  assumes "anime_id \<notin> set (map a_id (anime db))"
  shows "sql_delete_anime get_db anime_id db = db"
proof -
  from assms have "filter (\<lambda>a. a_id a \<noteq> anime_id) (anime db) = anime db"
    by (metis (mono_tags, lifting) filter_True imageI set_map)
  then show ?thesis by (simp add: sql_delete_anime_def get_db_def)
qed

lemma sql_delete_review_missing:
  assumes "review_id \<notin> set (map r_id (reviews db))"
  shows "sql_delete_review review_id db = db"
proof -
  from assms have "filter (\<lambda>r. r_id r \<noteq> review_id) (reviews db) = reviews db"
    by (metis (mono_tags, lifting) filter_True imageI set_map)
  then show ?thesis by (simp add: sql_delete_review_def)
qed

lemma sql_delete_twice:
  "sql_delete_anime get_db i (sql_delete_anime get_db i db) = sql_delete_anime get_db i db"
  "sql_delete_review i (sql_delete_review i db) = sql_delete_review i db"
  by (simp_all add: sql_delete_anime_def sql_delete_review_def get_db_def)

text \<open>
  Claim C9 as the claim states it fails: the two deletes do not answer \<open>{"ok": true}\<close>
  whatever the id. The id 2^63 is in neither table of the sample database, and both
  deletes end in the uncaught \<open>OverflowError\<close> of the driver.
\<close>

theorem delete_of_huge_id_overflows:
  "9223372036854775808 \<notin> set (map a_id (anime sample_db)) \<and>
   9223372036854775808 \<notin> set (map r_id (reviews sample_db)) \<and>
   delete_anime 9223372036854775808 sample_db = (Inl UncaughtOverflowError, sample_db) \<and>
   delete_review 9223372036854775808 sample_db = (Inl UncaughtOverflowError, sample_db)"
  by (simp add: delete_anime_def delete_review_def sqlite_integer_def sample_db_def
      naruto_reviews_def)

text \<open>
  Claim C9 as amended. For an id within the signed 64-bit range of SQLite's INTEGER,
  deleting a title id or a review id is no error whether or not the id is in storage:
  both deletes answer \<open>{"ok": true}\<close>, leave the database as it was when the id is
  absent, and a second delete of the same id gives the answer and the database of the
  first.
\<close>

theorem delete_in_range_is_ok_and_idempotent:
  "(sqlite_integer anime_id \<longrightarrow>
      fst (delete_anime anime_id db) = Inr [(''ok'', True)] \<and>
      (anime_id \<notin> set (map a_id (anime db)) \<longrightarrow>
         delete_anime anime_id db = (Inr [(''ok'', True)], db)) \<and>
      delete_anime anime_id (snd (delete_anime anime_id db)) = delete_anime anime_id db) \<and>
   (sqlite_integer review_id \<longrightarrow>
      fst (delete_review review_id db) = Inr [(''ok'', True)] \<and>
      (review_id \<notin> set (map r_id (reviews db)) \<longrightarrow>
         delete_review review_id db = (Inr [(''ok'', True)], db)) \<and>
      delete_review review_id (snd (delete_review review_id db)) = delete_review review_id db)"
proof (intro conjI impI)
  assume a: "sqlite_integer anime_id"
  show "fst (delete_anime anime_id db) = Inr [(''ok'', True)]"
    by (simp add: delete_anime_in_range[OF a])
  show "delete_anime anime_id db = (Inr [(''ok'', True)], db)"
    if "anime_id \<notin> set (map a_id (anime db))"
    by (simp add: delete_anime_in_range[OF a] sql_delete_anime_missing[OF that])
  show "delete_anime anime_id (snd (delete_anime anime_id db)) = delete_anime anime_id db"
    by (simp add: delete_anime_in_range[OF a] sql_delete_twice)
next
  assume r: "sqlite_integer review_id"
  show "fst (delete_review review_id db) = Inr [(''ok'', True)]"
    by (simp add: delete_review_in_range[OF r])
  show "delete_review review_id db = (Inr [(''ok'', True)], db)"
    if "review_id \<notin> set (map r_id (reviews db))"
    by (simp add: delete_review_in_range[OF r] sql_delete_review_missing[OF that])
  show "delete_review review_id (snd (delete_review review_id db)) = delete_review review_id db"
    by (simp add: delete_review_in_range[OF r] sql_delete_twice)
qed

theorem delete_in_range_is_ok_and_idempotent_witness:
  "sqlite_integer 7 \<and> 7 \<notin> set (map a_id (anime sample_db)) \<and>
   delete_anime 7 sample_db = (Inr [(''ok'', True)], sample_db) \<and>
   delete_anime 7 (snd (delete_anime 7 sample_db)) = delete_anime 7 sample_db \<and>
   sqlite_integer (- 9223372036854775808) \<and>
   - 9223372036854775808 \<notin> set (map r_id (reviews sample_db)) \<and>
   delete_review (- 9223372036854775808) sample_db = (Inr [(''ok'', True)], sample_db) \<and>
   delete_review (- 9223372036854775808) (snd (delete_review (- 9223372036854775808) sample_db))
     = delete_review (- 9223372036854775808) sample_db \<and>
   sqlite_integer 1 \<and> fst (delete_anime 1 sample_db) = Inr [(''ok'', True)] \<and>
   delete_anime 1 (snd (delete_anime 1 sample_db)) = delete_anime 1 sample_db"
proof -
  have a: "sqlite_integer 7" "7 \<notin> set (map a_id (anime sample_db))"
    by (simp_all add: sqlite_integer_def sample_db_def)
  have r: "sqlite_integer (- 9223372036854775808)"
    "- 9223372036854775808 \<notin> set (map r_id (reviews sample_db))"
    by (simp_all add: sqlite_integer_def sample_db_def naruto_reviews_def)
  have s: "sqlite_integer 1" by (simp add: sqlite_integer_def)
  note absent = delete_in_range_is_ok_and_idempotent
                  [of 7 sample_db "- 9223372036854775808"]
  note present = delete_in_range_is_ok_and_idempotent[of 1 sample_db 1]
  from absent[THEN conjunct1, rule_format, OF a(1)]
       absent[THEN conjunct2, rule_format, OF r(1)]
       present[THEN conjunct1, rule_format, OF s] a r s
  show ?thesis by simp
qed

section \<open>Updating reviews\<close>

lemma assign_keeps_id: "r_id (fold assign parts r) = r_id r"
proof (induction parts arbitrary: r)
  case Nil show ?case by simp
next
  case (Cons p ps)
  have "r_id (assign p r) = r_id r" by (cases p) simp_all
  with Cons.IH[of "assign p r"] show ?case by simp
qed

lemma assign_keeps_status:
  "\<forall>s. SetStatus s \<notin> set parts \<Longrightarrow> r_status (fold assign parts r) = r_status r"
proof (induction parts arbitrary: r)
  case Nil show ?case by simp
next
  case (Cons p ps)
  from Cons.prems have p: "\<forall>s. p \<noteq> SetStatus s" and ps: "\<forall>s. SetStatus s \<notin> set ps" by auto
  from p have "r_status (assign p r) = r_status r" by (cases p) simp_all
  with Cons.IH[OF ps, of "assign p r"] show ?case by simp
qed

lemma find_update_rows:
  "update_rows parts i rs = Inr rs' \<Longrightarrow>
   find (\<lambda>r. r_id r = i) rs' = map_option (fold assign parts) (find (\<lambda>r. r_id r = i) rs)"
proof (induction rs arbitrary: rs')
  case Nil then show ?case by auto
next
  case (Cons r rs)
  from Cons.prems obtain rest where
    rest: "update_rows parts i rs = Inr rest" and
    rs': "rs' = (if r_id r = i then fold assign parts r else r) # rest"
    by (auto simp: Let_def split: if_splits option.splits sum.splits)
  from Cons.IH[OF rest] rs' show ?case by (simp add: assign_keeps_id)
qed

lemma select_after_update:
  "sql_update_review parts i db = Inr db' \<Longrightarrow>
   select_review_by_id i db' = map_option (fold assign parts) (select_review_by_id i db)"
  by (auto simp: sql_update_review_def select_review_by_id_def find_update_rows split: sum.splits)

lemma update_review_cases:
  assumes "select_review_by_id rid db = Some cur"
  shows "update_review rid u db = (Inl PlanningMustBeUnrated, db) \<or>
         (\<exists>m. update_review rid u db = (Inl (UncaughtIntegrityError m), db)) \<or>
         (update_parts u = [] \<and> update_review rid u db = (Inr cur, db)) \<or>
         (\<exists>db'. sql_update_review (update_parts u) rid db = Inr db' \<and>
               update_review rid u db = (Inr (fold assign (update_parts u) cur), db'))"
proof (cases "current_status u cur = ''planning'' \<and> new_rating u cur > 0")
  case True
  with assms show ?thesis by (simp add: update_review_def PlanningMustBeUnrated_def)
next
  case no_reject: False
  show ?thesis
  proof (cases "update_parts u = []")
    case True
    with assms no_reject have "update_review rid u db = (Inr cur, db)"
      by (simp add: update_review_def)
    with True show ?thesis by simp
  next
    case parts: False
    show ?thesis
    proof (cases "sql_update_review (update_parts u) rid db")
      case (Inl e)
      obtain m where "e = IntegrityError m" by (cases e)
      with Inl assms no_reject parts
      have "update_review rid u db = (Inl (UncaughtIntegrityError m), db)"
        by (simp add: update_review_def)
      then show ?thesis by blast
    next
      case (Inr db')
      from select_after_update[OF Inr] assms
      have "select_review_by_id rid db' = Some (fold assign (update_parts u) cur)" by simp
      with Inr assms no_reject parts
      have "update_review rid u db = (Inr (fold assign (update_parts u) cur), db')"
        by (simp add: update_review_def)
      with Inr show ?thesis by blast
    qed
  qed
qed

text \<open>
  Claim C10. In a partial update an empty-string status counts as absent: the merged
  status is the stored one, the SET list holds no status assignment, the update behaves as
  the same update without a status, and the stored status of the review is what it was.
\<close>

theorem empty_status_is_absent:
  "current_status (u\<lparr>ru_status := Some ''''\<rparr>) cur = r_status cur \<and>
   (\<forall>s. SetStatus s \<notin> set (update_parts (u\<lparr>ru_status := Some ''''\<rparr>))) \<and>
   update_review rid (u\<lparr>ru_status := Some ''''\<rparr>) db = update_review rid (u\<lparr>ru_status := None\<rparr>) db \<and>
   (select_review_by_id rid db = Some cur \<longrightarrow>
      map_option r_status
        (select_review_by_id rid (snd (update_review rid (u\<lparr>ru_status := Some ''''\<rparr>) db)))
      = Some (r_status cur))"
proof (intro conjI impI)
  let ?u = "u\<lparr>ru_status := Some ''''\<rparr>"
  show "current_status ?u cur = r_status cur"
    by (simp add: current_status_def truthy_def)
  show no_status: "\<forall>s. SetStatus s \<notin> set (update_parts ?u)"
    by (simp add: update_parts_def truthy_def)
  have cs: "current_status ?u c = current_status (u\<lparr>ru_status := None\<rparr>) c" for c
    by (simp add: current_status_def truthy_def)
  have nr: "new_rating ?u c = new_rating (u\<lparr>ru_status := None\<rparr>) c" for c
    by (simp add: new_rating_def)
  have up: "update_parts ?u = update_parts (u\<lparr>ru_status := None\<rparr>)"
    by (simp add: update_parts_def truthy_def)
  show "update_review rid ?u db = update_review rid (u\<lparr>ru_status := None\<rparr>) db"
    by (simp only: update_review_def cs nr up)
  assume cur: "select_review_by_id rid db = Some cur"
  from update_review_cases[OF cur, of ?u]
  consider (same) "snd (update_review rid ?u db) = db"
    | (written) db' where "sql_update_review (update_parts ?u) rid db = Inr db'"
        and "snd (update_review rid ?u db) = db'"
    by fastforce
  then show "map_option r_status (select_review_by_id rid (snd (update_review rid ?u db)))
             = Some (r_status cur)"
  proof cases
    case same
    with cur show ?thesis by simp
  next
    case written
    from select_after_update[OF written(1)] cur
    have "select_review_by_id rid db' = Some (fold assign (update_parts ?u) cur)" by simp
    with written(2) assign_keeps_status[OF no_status] show ?thesis by simp
  qed
qed

theorem empty_status_is_absent_witness:
  "select_review_by_id 1 sample_db =
     Some \<lparr>r_id = 1, r_anime_id = 1, r_user_name = ''ann'', r_rating = 8,
           r_review_text = Some ''good'', r_status = ''watched'', r_created_at = 11\<rparr> \<and>
   map_option r_status
     (select_review_by_id 1
        (snd (update_review 1 \<lparr>ru_rating = Some 4, ru_review_text = None, ru_status = Some ''''\<rparr>
                sample_db))) = Some ''watched''"
proof -
  have cur: "select_review_by_id 1 sample_db =
     Some \<lparr>r_id = 1, r_anime_id = 1, r_user_name = ''ann'', r_rating = 8,
           r_review_text = Some ''good'', r_status = ''watched'', r_created_at = 11\<rparr>"
    by (simp add: select_review_by_id_def sample_db_def naruto_reviews_def)
  note all = empty_status_is_absent
         [where u = "\<lparr>ru_rating = Some 4, ru_review_text = None, ru_status = None\<rparr>"
            and rid = 1 and db = sample_db
            and cur = "\<lparr>r_id = 1, r_anime_id = 1, r_user_name = ''ann'', r_rating = 8,
                        r_review_text = Some ''good'', r_status = ''watched'',
                        r_created_at = 11\<rparr>"]
  note last = all[THEN conjunct2, THEN conjunct2, THEN conjunct2, rule_format, OF cur]
  from last cur show ?thesis by simp
qed

text \<open>
  Claim C2. For a stored review, a partial update whose merged view (the incoming status
  if given, else the stored one; the incoming rating if given, else the stored one) has
  status \<open>planning\<close> and a rating above 0 is rejected with \<open>PlanningMustBeUnrated\<close> and
  the database is returned as it was; so is the request at the route when it passes the
  field validation of \<open>ReviewUpdate\<close>.
\<close>

theorem merged_planning_rating_rejected:
  assumes "select_review_by_id rid db = Some cur"
    and "(case ru_status u of Some s \<Rightarrow> s | None \<Rightarrow> r_status cur) = ''planning''"
    and "(case ru_rating u of Some v \<Rightarrow> v | None \<Rightarrow> r_rating cur) > 0"
  shows "update_review rid u db = (Inl PlanningMustBeUnrated, db) \<and>
         (ReviewUpdate_validate u = Inr u \<longrightarrow>
            patch_api_reviews rid u db = (Inl PlanningMustBeUnrated, db))"
proof -
  from assms(2) have "current_status u cur = ''planning''"
    by (cases "ru_status u") (auto simp: current_status_def truthy_def)
  moreover from assms(3) have "new_rating u cur > 0"
    by (cases "ru_rating u") (auto simp: new_rating_def)
  ultimately have "update_review rid u db = (Inl PlanningMustBeUnrated, db)"
    using assms(1) by (simp add: update_review_def PlanningMustBeUnrated_def)
  then show ?thesis by (simp add: patch_api_reviews_def)
qed

theorem merged_planning_rating_rejected_witness:
  "select_review_by_id 1 sample_db =
     Some \<lparr>r_id = 1, r_anime_id = 1, r_user_name = ''ann'', r_rating = 8,
           r_review_text = Some ''good'', r_status = ''watched'', r_created_at = 11\<rparr> \<and>
   ReviewUpdate_validate \<lparr>ru_rating = None, ru_review_text = None, ru_status = Some ''planning''\<rparr>
     = Inr \<lparr>ru_rating = None, ru_review_text = None, ru_status = Some ''planning''\<rparr> \<and>
   update_review 1 \<lparr>ru_rating = None, ru_review_text = None, ru_status = Some ''planning''\<rparr>
     sample_db = (Inl PlanningMustBeUnrated, sample_db) \<and>
   patch_api_reviews 1 \<lparr>ru_rating = None, ru_review_text = None, ru_status = Some ''planning''\<rparr>
     sample_db = (Inl PlanningMustBeUnrated, sample_db)"
proof -
  let ?u = "\<lparr>ru_rating = None, ru_review_text = None, ru_status = Some ''planning''\<rparr>"
  let ?cur = "\<lparr>r_id = 1, r_anime_id = 1, r_user_name = ''ann'', r_rating = 8,
               r_review_text = Some ''good'', r_status = ''watched'', r_created_at = 11\<rparr>"
  have cur: "select_review_by_id 1 sample_db = Some ?cur"
    by (simp add: select_review_by_id_def sample_db_def naruto_reviews_def)
  have st: "(case ru_status ?u of Some s \<Rightarrow> s | None \<Rightarrow> r_status ?cur) = ''planning''" by simp
  have rt: "(case ru_rating ?u of Some v \<Rightarrow> v | None \<Rightarrow> r_rating ?cur) > 0" by simp
  have valid: "ReviewUpdate_validate ?u = Inr ?u"
    by (simp add: ReviewUpdate_validate_def ReviewUpdate_validate_rating_def errors_of_def)
  from merged_planning_rating_rejected[OF cur st rt] cur valid show ?thesis by simp
qed

section \<open>Status validation on the two write paths\<close>

lemma create_review_invalid_status_rejected:
  assumes "rc_status body \<notin> {''watched'', ''planning''}"
  shows "\<exists>msgs. post_api_reviews body now db = (Inl (ValidationError msgs), db) \<and>
                InvalidStatus_msg \<in> set msgs"
proof -
  from assms have "errors_of (validate_status (rc_status body)) = [InvalidStatus_msg]"
    by (simp add: validate_status_def errors_of_def InvalidStatus_msg_def)
  then show ?thesis
    by (simp add: post_api_reviews_def ReviewCreate_validate_def Let_def)
qed

lemma update_rows_check_fails:
  assumes "find (\<lambda>r. r_id r = i) rs = Some cur"
    and "check_constraints (fold assign parts cur) = Some e"
  shows "update_rows parts i rs = Inl e"
  using assms
proof (induction rs)
  case Nil then show ?case by simp
next
  case (Cons r rs)
  show ?case
  proof (cases "r_id r = i")
    case True
    with Cons.prems have "r = cur" by simp
    with True Cons.prems(2) show ?thesis by (simp add: Let_def)
  next
    case False
    with Cons.prems have "find (\<lambda>r. r_id r = i) rs = Some cur" by simp
    from Cons.IH[OF this Cons.prems(2)] False show ?thesis by simp
  qed
qed

lemma update_review_invalid_status_leaks:
  assumes cur: "select_review_by_id rid db = Some cur"
    and valid: "check_rating cur"
    and s: "s \<noteq> []" "s \<notin> {''watched'', ''planning''}"
  shows "patch_api_reviews rid \<lparr>ru_rating = None, ru_review_text = None, ru_status = Some s\<rparr> db
         = (Inl (UncaughtIntegrityError
              ''CHECK constraint failed: status IN ('watched', 'planning')''), db)"
proof -
  let ?u = "\<lparr>ru_rating = None, ru_review_text = None, ru_status = Some s\<rparr>"
  have accepted: "ReviewUpdate_validate ?u = Inr ?u"
    by (simp add: ReviewUpdate_validate_def ReviewUpdate_validate_rating_def errors_of_def)
  have parts: "update_parts ?u = [SetStatus s]"
    using s(1) by (simp add: update_parts_def truthy_def)
  have status: "current_status ?u cur = s"
    using s(1) by (simp add: current_status_def truthy_def)
  have "check_constraints (fold assign [SetStatus s] cur)
        = Some (IntegrityError
              ''CHECK constraint failed: status IN ('watched', 'planning')'')"
    using valid s(2) by (simp add: check_constraints_def check_rating_def check_status_def)
  from update_rows_check_fails[OF cur[unfolded select_review_by_id_def] this]
  have "sql_update_review [SetStatus s] rid db = Inl (IntegrityError
              ''CHECK constraint failed: status IN ('watched', 'planning')'')"
    by (simp add: sql_update_review_def)
  with cur parts status s(2) have "update_review rid ?u db
         = (Inl (UncaughtIntegrityError
              ''CHECK constraint failed: status IN ('watched', 'planning')''), db)"
    by (simp add: update_review_def)
  with accepted show ?thesis by (simp add: patch_api_reviews_def)
qed

text \<open>
  Claim C5, at the failing input. A partial update of review 1 whose only member is
  \<open>status = "dropped"\<close> passes the validation of \<open>ReviewUpdate\<close>, which has no status
  validator; the handler builds \<open>status = ?\<close> and runs the UPDATE, and the CHECK constraint
  of the table raises \<open>IntegrityError\<close>, which nothing catches.
\<close>

theorem unknown_status_update_reaches_storage:
  "ReviewUpdate_validate \<lparr>ru_rating = None, ru_review_text = None, ru_status = Some ''dropped''\<rparr>
     = Inr \<lparr>ru_rating = None, ru_review_text = None, ru_status = Some ''dropped''\<rparr> \<and>
   sql_update_review
     (update_parts \<lparr>ru_rating = None, ru_review_text = None, ru_status = Some ''dropped''\<rparr>)
     1 sample_db = Inl (IntegrityError
              ''CHECK constraint failed: status IN ('watched', 'planning')'') \<and>
   patch_api_reviews 1 \<lparr>ru_rating = None, ru_review_text = None, ru_status = Some ''dropped''\<rparr>
     sample_db = (Inl (UncaughtIntegrityError
              ''CHECK constraint failed: status IN ('watched', 'planning')''), sample_db)"
proof (intro conjI)
  let ?u = "\<lparr>ru_rating = None, ru_review_text = None, ru_status = Some ''dropped''\<rparr>"
  show accepted: "ReviewUpdate_validate ?u = Inr ?u"
    by (simp add: ReviewUpdate_validate_def ReviewUpdate_validate_rating_def errors_of_def)
  have parts: "update_parts ?u = [SetStatus ''dropped'']"
    by (simp add: update_parts_def truthy_def)
  show failed: "sql_update_review (update_parts ?u) 1 sample_db
                = Inl (IntegrityError
              ''CHECK constraint failed: status IN ('watched', 'planning')'')"
    unfolding parts
    by (simp add: sql_update_review_def sample_db_def naruto_reviews_def check_constraints_def
        check_rating_def check_status_def)
  have cur: "select_review_by_id 1 sample_db = Some (hd naruto_reviews)"
    by (simp add: select_review_by_id_def sample_db_def naruto_reviews_def)
  have "update_review 1 ?u sample_db
        = (Inl (UncaughtIntegrityError
              ''CHECK constraint failed: status IN ('watched', 'planning')''), sample_db)"
    unfolding update_review_def cur using failed
    by (simp add: parts current_status_def truthy_def)
  with accepted show "patch_api_reviews 1 ?u sample_db
        = (Inl (UncaughtIntegrityError
              ''CHECK constraint failed: status IN ('watched', 'planning')''), sample_db)"
    by (simp add: patch_api_reviews_def)
qed

section \<open>Deleting a title and its reviews\<close>

lemma cascade_needs_foreign_keys:
  "foreign_keys c \<Longrightarrow> \<forall>r \<in> set (reviews (sql_delete_anime c i db)). r_anime_id r \<noteq> i"
  by (simp add: sql_delete_anime_def)

lemma delete_anime_keeps_reviews: "reviews (snd (delete_anime anime_id db)) = reviews db"
  by (simp add: delete_anime_def sql_delete_anime_def get_db_def)

text \<open>
  Claim C1, at the failing input. Deleting title 1 of the sample database removes the
  title and leaves its three reviews in storage; a later lookup of review 1 (the one the
  update handler does) finds it and answers with the row, not with 404.
\<close>

theorem reviews_outlive_deleted_title:
  "select_anime_by_id 1 (snd (delete_anime 1 sample_db)) = None \<and>
   filter (\<lambda>r. r_anime_id r = 1) (reviews (snd (delete_anime 1 sample_db))) = naruto_reviews \<and>
   fst (update_review 1 \<lparr>ru_rating = None, ru_review_text = None, ru_status = None\<rparr>
          (snd (delete_anime 1 sample_db)))
     = Inr \<lparr>r_id = 1, r_anime_id = 1, r_user_name = ''ann'', r_rating = 8,
            r_review_text = Some ''good'', r_status = ''watched'', r_created_at = 11\<rparr>"
  by (simp add: delete_anime_def sqlite_integer_def sql_delete_anime_def get_db_def
      sample_db_def naruto_reviews_def select_anime_by_id_def select_review_by_id_def
      update_review_def current_status_def new_rating_def update_parts_def truthy_def)

section \<open>Creating reviews\<close>

lemma select_after_insert_review:
  assumes "insert_review c rv now db = Inr (i, db')"
  shows "\<exists>row. select_review_by_id i db' = Some row \<and>
               r_id row = i \<and> r_user_name row = rc_user_name rv \<and>
               db' = db\<lparr>reviews := reviews db @ [row], reviews_seq := i\<rparr>"
proof -
  let ?i = "next_rowid (reviews_seq db) (map r_id (reviews db))"
  let ?row = "\<lparr>r_id = ?i, r_anime_id = rc_anime_id rv, r_user_name = rc_user_name rv,
                r_rating = rc_rating rv, r_review_text = rc_review_text rv,
                r_status = rc_status rv, r_created_at = now\<rparr>"
  from assms have i: "i = ?i" and db': "db' = db\<lparr>reviews := reviews db @ [?row], reviews_seq := ?i\<rparr>"
    by (auto simp: insert_review_def Let_def split: option.splits if_splits)
  have "\<forall>r \<in> set (reviews db). r_id r \<noteq> ?i"
    using next_rowid_fresh[of "reviews_seq db" "map r_id (reviews db)"] by (metis imageI set_map)
  then have "select_review_by_id ?i db' = Some ?row"
    unfolding select_review_by_id_def db' by (simp add: find_append_fresh)
  with i db' show ?thesis by simp
qed

lemma insert_review_accepts:
  assumes "0 \<le> rc_rating rv" "rc_rating rv \<le> 10" "rc_status rv \<in> {''watched'', ''planning''}"
  shows "\<exists>i db'. insert_review get_db rv now db = Inr (i, db')"
  using assms
  by (simp add: insert_review_def Let_def check_constraints_def check_rating_def
      check_status_def get_db_def)

lemma create_review_success:
  assumes "create_review rv now db = (Inr row, db')"
  shows "r_user_name row = rc_user_name rv \<and> reviews db' = reviews db @ [row]"
proof -
  from assms obtain i where ins: "insert_review get_db rv now db = Inr (i, db')"
    and sel: "select_review_by_id i db' = Some row"
    by (auto simp: create_review_def split: option.splits if_splits sum.splits sql_error.splits)
  from select_after_insert_review[OF ins] sel show ?thesis by auto
qed

text \<open>
  Claim C7 as the claim states it fails: a creation request with the empty string as
  \<open>user_name\<close> is accepted, and the stored review has the empty \<open>user_name\<close>.
\<close>

theorem empty_user_name_is_stored:
  "post_api_reviews \<lparr>rc_anime_id = 1, rc_user_name = '''', rc_rating = 7,
                      rc_review_text = None, rc_status = ''watched''\<rparr> 30 sample_db =
     (Inr \<lparr>r_id = 5, r_anime_id = 1, r_user_name = '''', r_rating = 7,
            r_review_text = None, r_status = ''watched'', r_created_at = 30\<rparr>,
      sample_db\<lparr>reviews := reviews sample_db @
                    [\<lparr>r_id = 5, r_anime_id = 1, r_user_name = '''', r_rating = 7,
                       r_review_text = None, r_status = ''watched'', r_created_at = 30\<rparr>],
                 reviews_seq := 5\<rparr>)"
  by (simp add: post_api_reviews_def ReviewCreate_validate_def validate_rating_def
      validate_rating_with_status_def validate_status_def errors_of_def create_review_def
      select_anime_by_id_def select_review_by_id_def insert_review_def check_constraints_def
      check_rating_def check_status_def get_db_def next_rowid_def sample_db_def
      naruto_reviews_def)

text \<open>
  Claim C7 as amended. A review accepted into storage carries the \<open>user_name\<close> of its
  creation request as it was sent, and nothing requires it to be non-empty: a request
  that names an existing title, with a rating in [0, 10] and a status that is \<open>watched\<close>,
  or \<open>planning\<close> with rating 0, is accepted whatever its \<open>user_name\<close>.
\<close>

theorem user_name_stored_as_sent:
  "(post_api_reviews req now db = (Inr row, db') \<longrightarrow>
      r_user_name row = rc_user_name req \<and> reviews db' = reviews db @ [row]) \<and>
   (select_anime_by_id (rc_anime_id req) db \<noteq> None \<and>
    0 \<le> rc_rating req \<and> rc_rating req \<le> 10 \<and>
    (rc_status req = ''watched'' \<or> rc_status req = ''planning'' \<and> rc_rating req = 0) \<longrightarrow>
      (\<exists>stored. fst (post_api_reviews req now db) = Inr stored \<and>
                 r_user_name stored = rc_user_name req))"
proof -
  have kept: "r_user_name row = rc_user_name req \<and> reviews db' = reviews db @ [row]"
    if "post_api_reviews req now db = (Inr row, db')"
  proof -
    from that have "create_review req now db = (Inr row, db')"
      by (auto simp: post_api_reviews_def ReviewCreate_validate_def Let_def
          split: sum.splits if_splits)
    then show ?thesis by (rule create_review_success)
  qed
  have accepted: "\<exists>stored. fst (post_api_reviews req now db) = Inr stored \<and>
                 r_user_name stored = rc_user_name req"
    if pre: "select_anime_by_id (rc_anime_id req) db \<noteq> None \<and>
      0 \<le> rc_rating req \<and> rc_rating req \<le> 10 \<and>
      (rc_status req = ''watched'' \<or> rc_status req = ''planning'' \<and> rc_rating req = 0)"
  proof -
    from pre have status: "rc_status req \<in> {''watched'', ''planning''}" by auto
    from pre have valid: "ReviewCreate_validate req = Inr req"
      by (auto simp: ReviewCreate_validate_def validate_rating_def validate_status_def
          validate_rating_with_status_def errors_of_def)
    from pre have no_reject: "\<not> (rc_status req = ''planning'' \<and> rc_rating req > 0)" by auto
    from pre status insert_review_accepts[of req now db] obtain i db1 where
      ins: "insert_review get_db req now db = Inr (i, db1)" by blast
    from select_after_insert_review[OF ins] obtain stored where
      sel: "select_review_by_id i db1 = Some stored" and
      name: "r_user_name stored = rc_user_name req" by blast
    from pre obtain a where a: "select_anime_by_id (rc_anime_id req) db = Some a" by auto
    have "create_review req now db = (Inr stored, db1)"
      using a no_reject ins sel by (simp add: create_review_def)
    with valid name show ?thesis by (simp add: post_api_reviews_def)
  qed
  from kept accepted show ?thesis by blast
qed

theorem user_name_stored_as_sent_witness:
  "select_anime_by_id 1 sample_db \<noteq> None \<and>
   (\<exists>stored. fst (post_api_reviews \<lparr>rc_anime_id = 1, rc_user_name = '''', rc_rating = 7,
                      rc_review_text = None, rc_status = ''watched''\<rparr> 30 sample_db) = Inr stored \<and>
              r_user_name stored = '''')"
proof -
  have a: "select_anime_by_id 1 sample_db \<noteq> None"
    by (simp add: select_anime_by_id_def sample_db_def)
  note both = user_name_stored_as_sent
      [where req = "\<lparr>rc_anime_id = 1, rc_user_name = '''', rc_rating = 7,
                      rc_review_text = None, rc_status = ''watched''\<rparr>"
         and now = 30 and db = sample_db]
  from both[THEN conjunct2] a show ?thesis by simp
qed

section \<open>ORDER BY\<close>

lemma mset_insert_desc: "mset (insert_desc key x ys) = add_mset x (mset ys)"
  by (induction ys) simp_all

lemma mset_order_by_desc: "mset (order_by_desc key rows) = mset rows"
  by (induction rows) (simp_all add: order_by_desc_def mset_insert_desc)

lemma set_order_by_desc: "set (order_by_desc key rows) = set rows"
  using mset_order_by_desc[of key rows] by (metis set_mset_mset)

lemma length_order_by_desc: "length (order_by_desc key rows) = length rows"
  using mset_order_by_desc[of key rows] by (metis size_mset)

lemma descending_insert_desc:
  assumes "sorted_wrt (\<lambda>a b. key b \<le> key a) ys"
  shows "sorted_wrt (\<lambda>a b. key b \<le> key a) (insert_desc key x ys)"
  using assms
proof (induction ys)
  case Nil show ?case by simp
next
  case (Cons y ys)
  show ?case
  proof (cases "key x < key y")
    case True
    have "set (insert_desc key x ys) = insert x (set ys)"
      using mset_insert_desc[of key x ys] by (metis set_mset_add_mset_insert set_mset_mset)
    with True Cons show ?thesis by auto
  next
    case False
    with Cons.prems have "\<forall>z \<in> set (y # ys). key z \<le> key x" by fastforce
    with False Cons.prems show ?thesis by simp
  qed
qed

lemma order_by_desc_keeps_ties:
  "order_by_desc key [x, y] = (if key x < key y then [y, x] else [x, y])"
  by (simp add: order_by_desc_def)

lemma descending_order_by_desc:
  "sorted_wrt (\<lambda>a b. key b \<le> key a) (order_by_desc key rows)"
  by (induction rows) (simp_all add: order_by_desc_def descending_insert_desc)

section \<open>GROUP BY\<close>

lemma remdups_block:
  "k \<notin> set rest \<Longrightarrow> remdups (replicate (Suc n) k @ rest) = k # remdups rest"
  by (induction n) simp_all

lemma map_constant: "\<forall>x \<in> set xs. f x = k \<Longrightarrow> map f xs = replicate (length xs) k"
  by (induction xs) simp_all

lemma group_by_single:
  assumes "rows \<noteq> []" and "\<forall>x \<in> set rows. key x = k"
  shows "group_by key rows = [(k, rows)]"
proof -
  from assms(1) obtain n where n: "length rows = Suc n" by (cases rows) auto
  have "remdups (map key rows) = [k]"
    using remdups_block[of k "[]" n] map_constant[OF assms(2)] n by simp
  moreover have "filter (\<lambda>x. key x = k) rows = rows" using assms(2) by simp
  ultimately show ?thesis by (simp add: group_by_def)
qed

lemma map_filter_total:
  "\<forall>x \<in> set xs. f x = Some (g x) \<Longrightarrow> List.map_filter f xs = map g xs"
  by (induction xs) simp_all

section \<open>The left join, title by title\<close>

lemma left_join_rows_nonempty: "left_join_rows a rs \<noteq> []"
  by (simp add: left_join_rows_def Let_def)

lemma left_join_rows_fst: "p \<in> set (left_join_rows a rs) \<Longrightarrow> fst p = a"
  by (auto simp: left_join_rows_def Let_def split: if_splits)

lemma left_join_Cons: "left_join (a # as) rs = left_join_rows a rs @ left_join as rs"
  by (simp add: left_join_def)

lemma left_join_ids: "p \<in> set (left_join as rs) \<Longrightarrow> a_id (fst p) \<in> a_id ` set as"
  by (auto simp: left_join_def dest: left_join_rows_fst)

lemma left_join_filter_absent:
  "i \<notin> a_id ` set as \<Longrightarrow> filter (\<lambda>p. a_id (fst p) = i) (left_join as rs) = []"
  by (auto simp: filter_empty_conv dest: left_join_ids)

lemma left_join_filter_present:
  assumes "distinct (map a_id as)" and "a \<in> set as"
  shows "filter (\<lambda>p. a_id (fst p) = a_id a) (left_join as rs) = left_join_rows a rs"
  using assms
proof (induction as)
  case Nil then show ?case by simp
next
  case (Cons b bs)
  have own: "filter (\<lambda>p. a_id (fst p) = a_id b) (left_join_rows b rs) = left_join_rows b rs"
    by (simp add: left_join_rows_fst)
  show ?case
  proof (cases "a = b")
    case True
    from Cons.prems(1) have "a_id b \<notin> a_id ` set bs" by simp
    from left_join_filter_absent[OF this] own True show ?thesis
      by (simp add: left_join_Cons)
  next
    case False
    with Cons.prems have a: "a \<in> set bs" and d: "distinct (map a_id bs)" by auto
    from Cons.prems(1) a have "a_id b \<noteq> a_id a" by auto
    then have "filter (\<lambda>p. a_id (fst p) = a_id a) (left_join_rows b rs) = []"
      by (auto simp: filter_empty_conv dest: left_join_rows_fst)
    with Cons.IH[OF d a] show ?thesis by (simp add: left_join_Cons)
  qed
qed

lemma left_join_keys:
  "distinct (map a_id as) \<Longrightarrow> remdups (map (a_id \<circ> fst) (left_join as rs)) = map a_id as"
proof (induction as)
  case Nil show ?case by (simp add: left_join_def)
next
  case (Cons b bs)
  obtain n where n: "length (left_join_rows b rs) = Suc n"
    using left_join_rows_nonempty[of b rs] by (cases "left_join_rows b rs") auto
  have block: "map (a_id \<circ> fst) (left_join_rows b rs) = replicate (Suc n) (a_id b)"
    using map_constant[of "left_join_rows b rs" "a_id \<circ> fst" "a_id b"] n
    by (simp add: left_join_rows_fst)
  from Cons.prems have "a_id b \<notin> a_id ` set bs" by simp
  then have "a_id b \<notin> set (map (a_id \<circ> fst) (left_join bs rs))"
    using left_join_ids[of _ bs rs] by auto
  note fresh = this
  from Cons.prems have d: "distinct (map a_id bs)" by simp
  have "remdups (map (a_id \<circ> fst) (left_join (b # bs) rs))
        = remdups (replicate (Suc n) (a_id b) @ map (a_id \<circ> fst) (left_join bs rs))"
    by (simp only: left_join_Cons map_append block)
  also have "\<dots> = a_id b # remdups (map (a_id \<circ> fst) (left_join bs rs))"
    by (rule remdups_block[OF fresh])
  also have "\<dots> = a_id b # map a_id bs"
    by (simp only: Cons.IH[OF d])
  finally show ?case by (simp only: list.map)
qed

lemma group_by_left_join:
  assumes "distinct (map a_id as)"
  shows "group_by (a_id \<circ> fst) (left_join as rs) = map (\<lambda>a. (a_id a, left_join_rows a rs)) as"
proof -
  have "map (\<lambda>k. (k, filter (\<lambda>p. (a_id \<circ> fst) p = k) (left_join as rs))) (map a_id as)
        = map (\<lambda>a. (a_id a, left_join_rows a rs)) as"
    using left_join_filter_present[OF assms] by simp
  then show ?thesis by (simp add: group_by_def left_join_keys[OF assms])
qed

section \<open>The aggregate columns\<close>

lemma join_condition: "filter (\<lambda>r. a_id a = r_anime_id r) (reviews db) = reviews_of_title db (a_id a)"
  unfolding reviews_of_title_def by (rule filter_cong) auto

lemma watched_values:
  "concat (map (\<lambda>v. case v of None \<Rightarrow> [] | Some x \<Rightarrow> [x])
             (map (watched_rating \<circ> snd) (map (\<lambda>r. (a, Some r)) ms)))
   = map r_rating (filter (\<lambda>r. r_status r = ''watched'') ms)"
  by (induction ms) (simp_all add: watched_rating_def)

lemma avg_left_join_rows:
  "sql_avg (map (watched_rating \<circ> snd) (left_join_rows a (reviews db)))
   = arithmetic_mean
       (map r_rating (filter (\<lambda>r. r_status r = ''watched'') (reviews_of_title db (a_id a))))"
proof (cases "reviews_of_title db (a_id a) = []")
  case True
  then have "left_join_rows a (reviews db) = [(a, None)]"
    by (simp add: left_join_rows_def join_condition)
  with True show ?thesis
    by (simp add: sql_avg_def arithmetic_mean_def watched_rating_def)
next
  case False
  then have "left_join_rows a (reviews db) = map (\<lambda>r. (a, Some r)) (reviews_of_title db (a_id a))"
    by (simp add: left_join_rows_def join_condition)
  then show ?thesis
    by (simp only: sql_avg_def watched_values arithmetic_mean_def Let_def)
qed

lemma count_left_join_rows:
  "sql_count (map (map_option r_id \<circ> snd) (left_join_rows a (reviews db)))
   = int (length (reviews_of_title db (a_id a)))"
proof (cases "reviews_of_title db (a_id a) = []")
  case True
  then have "left_join_rows a (reviews db) = [(a, None)]"
    by (simp add: left_join_rows_def join_condition)
  with True show ?thesis by (simp add: sql_count_def)
next
  case False
  then have "left_join_rows a (reviews db) = map (\<lambda>r. (a, Some r)) (reviews_of_title db (a_id a))"
    by (simp add: left_join_rows_def join_condition)
  then show ?thesis by (simp add: sql_count_def comp_def)
qed

lemma anime_select_left_join_rows:
  "anime_select db (left_join_rows a (reviews db)) = Some (computeAggregate db a)"
proof -
  obtain p ps where rows: "left_join_rows a (reviews db) = p # ps"
    using left_join_rows_nonempty[of a "reviews db"] by (cases "left_join_rows a (reviews db)") auto
  then have "fst p = a" using left_join_rows_fst[of p a "reviews db"] by simp
  then obtain r where p: "p = (a, r)" by (cases p) simp
  have "anime_select db (p # ps) =
          Some \<lparr>ar_id = a_id a, ar_title = a_title a, ar_description = a_description a,
                ar_average_rating = sql_avg (map (watched_rating \<circ> snd) (p # ps)),
                ar_total_reviews = sql_count (map (map_option r_id \<circ> snd) (p # ps)),
                ar_latest_review_text = Option.bind (latest_review (a_id a) db) r_review_text,
                ar_latest_review_user = map_option r_user_name (latest_review (a_id a) db),
                ar_created_at = a_created_at a\<rparr>"
    unfolding anime_select_def p by simp
  then show ?thesis
    unfolding rows[symmetric] avg_left_join_rows count_left_join_rows computeAggregate_def .
qed

lemma get_all_anime_aggregates:
  assumes "anime_ids_unique db"
  shows "get_all_anime db = order_by_desc ar_created_at (map (computeAggregate db) (anime db))"
proof -
  from assms have d: "distinct (map a_id (anime db))" by (simp add: anime_ids_unique_def)
  have "List.map_filter (anime_select db \<circ> snd)
          (map (\<lambda>a. (a_id a, left_join_rows a (reviews db))) as)
        = map (computeAggregate db) as" for as
    by (induction as) (simp_all add: anime_select_left_join_rows)
  then show ?thesis
    by (simp only: get_all_anime_def group_by_left_join[OF d])
qed

lemma get_anime_found:
  assumes "anime_ids_unique db" and "a \<in> set (anime db)"
  shows "get_anime (a_id a) db =
           Inr \<lparr>aw_anime = computeAggregate db a,
                aw_reviews = order_by_desc r_created_at (reviews_of_title db (a_id a))\<rparr>"
proof -
  from assms(1) have d: "distinct (map a_id (anime db))" by (simp add: anime_ids_unique_def)
  have cond: "(\<lambda>(a', r). a_id a' = a_id a) = (\<lambda>p. a_id (fst p) = a_id a)"
    by (simp add: fun_eq_iff split_def)
  have rows: "filter (\<lambda>(a', r). a_id a' = a_id a) (left_join (anime db) (reviews db))
              = left_join_rows a (reviews db)"
    unfolding cond by (rule left_join_filter_present[OF d assms(2)])
  have "group_by (a_id \<circ> fst) (left_join_rows a (reviews db))
        = [(a_id a, left_join_rows a (reviews db))]"
    by (rule group_by_single) (simp_all add: left_join_rows_nonempty left_join_rows_fst)
  then show ?thesis
    by (simp add: get_anime_def rows anime_select_left_join_rows reviews_of_title_def)
qed

lemma get_anime_missing:
  assumes "i \<notin> a_id ` set (anime db)"
  shows "get_anime i db = Inl NotFound_Anime"
proof -
  have cond: "(\<lambda>(a', r). a_id a' = i) = (\<lambda>p. a_id (fst p) = i)"
    by (simp add: fun_eq_iff split_def)
  have "filter (\<lambda>(a', r). a_id a' = i) (left_join (anime db) (reviews db)) = []"
    unfolding cond by (rule left_join_filter_absent[OF assms])
  then show ?thesis by (simp add: get_anime_def group_by_def NotFound_Anime_def)
qed

lemma aggregate_fields:
  "ar_id (computeAggregate db a) = a_id a"
  "ar_average_rating (computeAggregate db a) =
     arithmetic_mean
       (map r_rating (filter (\<lambda>r. r_status r = ''watched'') (reviews_of_title db (a_id a))))"
  "ar_total_reviews (computeAggregate db a) = int (length (reviews_of_title db (a_id a)))"
  by (simp_all add: computeAggregate_def)

lemma no_watched_no_average:
  "\<forall>r \<in> set rs. r_status r \<noteq> ''watched'' \<Longrightarrow>
   arithmetic_mean (map r_rating (filter (\<lambda>r. r_status r = ''watched'') rs)) = None"
  by (simp add: arithmetic_mean_def filter_empty_conv)

text \<open>
  Claim C3. In the list of all titles and in the answer for a single title, there is
  one aggregate for each title; its average_rating is the arithmetic mean of the ratings
  of exactly the title's reviews with status \<open>watched\<close>, null when the title has no
  watched review (whatever other reviews it has), and its total_reviews counts all the
  title's reviews.
\<close>

theorem average_is_mean_of_watched:
  assumes "anime_ids_unique db"
  shows "mset (map ar_id (get_all_anime db)) = mset (map a_id (anime db)) \<and>
    (\<forall>resp \<in> set (get_all_anime db).
       ar_average_rating resp =
         arithmetic_mean (map r_rating (filter (\<lambda>r. r_status r = ''watched'')
                                           (reviews_of_title db (ar_id resp)))) \<and>
       ar_total_reviews resp = int (length (reviews_of_title db (ar_id resp))) \<and>
       ((\<forall>r \<in> set (reviews_of_title db (ar_id resp)). r_status r \<noteq> ''watched'') \<longrightarrow>
          ar_average_rating resp = None)) \<and>
    (\<forall>a \<in> set (anime db). \<exists>res.
       get_anime (a_id a) db = Inr res \<and> ar_id (aw_anime res) = a_id a \<and>
       ar_average_rating (aw_anime res) =
         arithmetic_mean (map r_rating (filter (\<lambda>r. r_status r = ''watched'')
                                           (reviews_of_title db (a_id a)))) \<and>
       ar_total_reviews (aw_anime res) = int (length (reviews_of_title db (a_id a))) \<and>
       ((\<forall>r \<in> set (reviews_of_title db (a_id a)). r_status r \<noteq> ''watched'') \<longrightarrow>
          ar_average_rating (aw_anime res) = None))"
proof -
  note all = get_all_anime_aggregates[OF assms]
  have same_ids: "map ar_id (map (computeAggregate db) (anime db)) = map a_id (anime db)"
    by (simp add: comp_def aggregate_fields)
  have ids: "mset (map ar_id (get_all_anime db)) = mset (map a_id (anime db))"
    unfolding all same_ids[symmetric] by (simp only: mset_map mset_order_by_desc)
  have listed: "ar_average_rating resp =
         arithmetic_mean (map r_rating (filter (\<lambda>r. r_status r = ''watched'')
                                           (reviews_of_title db (ar_id resp)))) \<and>
       ar_total_reviews resp = int (length (reviews_of_title db (ar_id resp))) \<and>
       ((\<forall>r \<in> set (reviews_of_title db (ar_id resp)). r_status r \<noteq> ''watched'') \<longrightarrow>
          ar_average_rating resp = None)"
    if "resp \<in> set (get_all_anime db)" for resp
  proof -
    from that obtain a where "resp = computeAggregate db a"
      unfolding all set_order_by_desc by auto
    then show ?thesis by (simp add: aggregate_fields no_watched_no_average arithmetic_mean_def)
  qed
  have single: "\<exists>res.
       get_anime (a_id a) db = Inr res \<and> ar_id (aw_anime res) = a_id a \<and>
       ar_average_rating (aw_anime res) =
         arithmetic_mean (map r_rating (filter (\<lambda>r. r_status r = ''watched'')
                                           (reviews_of_title db (a_id a)))) \<and>
       ar_total_reviews (aw_anime res) = int (length (reviews_of_title db (a_id a))) \<and>
       ((\<forall>r \<in> set (reviews_of_title db (a_id a)). r_status r \<noteq> ''watched'') \<longrightarrow>
          ar_average_rating (aw_anime res) = None)"
    if "a \<in> set (anime db)" for a
    using get_anime_found[OF assms that]
    by (simp add: aggregate_fields no_watched_no_average arithmetic_mean_def)
  from ids listed single show ?thesis by blast
qed

lemma sample_db_aggregates:
  "get_all_anime sample_db =
     [\<lparr>ar_id = 2, ar_title = ''Bleach'', ar_description = None, ar_average_rating = None,
        ar_total_reviews = 1, ar_latest_review_text = None, ar_latest_review_user = Some ''dee'',
        ar_created_at = 20\<rparr>,
      \<lparr>ar_id = 1, ar_title = ''Naruto'', ar_description = None, ar_average_rating = Some 9,
        ar_total_reviews = 3, ar_latest_review_text = None, ar_latest_review_user = Some ''cyd'',
        ar_created_at = 10\<rparr>]"
  by code_simp

theorem average_is_mean_of_watched_witness:
  "anime_ids_unique sample_db \<and>
   \<lparr>ar_id = 1, ar_title = ''Naruto'', ar_description = None, ar_average_rating = Some 9,
     ar_total_reviews = 3, ar_latest_review_text = None, ar_latest_review_user = Some ''cyd'',
     ar_created_at = 10\<rparr> \<in> set (get_all_anime sample_db) \<and>
   arithmetic_mean (map r_rating (filter (\<lambda>r. r_status r = ''watched'')
                                     (reviews_of_title sample_db 1))) = Some 9 \<and>
   int (length (reviews_of_title sample_db 1)) = 3 \<and>
   \<lparr>ar_id = 2, ar_title = ''Bleach'', ar_description = None, ar_average_rating = None,
     ar_total_reviews = 1, ar_latest_review_text = None, ar_latest_review_user = Some ''dee'',
     ar_created_at = 20\<rparr> \<in> set (get_all_anime sample_db) \<and>
   arithmetic_mean (map r_rating (filter (\<lambda>r. r_status r = ''watched'')
                                     (reviews_of_title sample_db 2))) = None \<and>
   int (length (reviews_of_title sample_db 2)) = 1"
proof -
  have u: "anime_ids_unique sample_db" by (simp add: anime_ids_unique_def sample_db_def)
  note fact = average_is_mean_of_watched[OF u, THEN conjunct2, THEN conjunct1, rule_format]
  let ?naruto = "\<lparr>ar_id = 1, ar_title = ''Naruto'', ar_description = None,
     ar_average_rating = Some 9,
     ar_total_reviews = 3, ar_latest_review_text = None, ar_latest_review_user = Some ''cyd'',
     ar_created_at = 10\<rparr>"
  let ?bleach = "\<lparr>ar_id = 2, ar_title = ''Bleach'', ar_description = None,
     ar_average_rating = None,
     ar_total_reviews = 1, ar_latest_review_text = None, ar_latest_review_user = Some ''dee'',
     ar_created_at = 20\<rparr>"
  have n: "?naruto \<in> set (get_all_anime sample_db)" by (simp add: sample_db_aggregates)
  have b: "?bleach \<in> set (get_all_anime sample_db)" by (simp add: sample_db_aggregates)
  from fact[OF n] fact[OF b] u n b show ?thesis by simp
qed

section \<open>The keys of the anime table are kept by every handler\<close>

lemma keys_init_db: "anime_ids_unique init_db \<and> anime_titles_unique init_db"
  by (simp add: anime_ids_unique_def anime_titles_unique_def init_db_def)

lemma create_anime_database:
  "snd (create_anime req now db) = db \<or>
   (\<exists>i. insert_anime (ac_title req) None now db = Inr (i, snd (create_anime req now db)))"
  by (auto simp: create_anime_def split: sum.splits option.splits)

lemma keys_create_anime:
  assumes "anime_ids_unique db \<and> anime_titles_unique db"
  shows "anime_ids_unique (snd (create_anime req now db)) \<and>
         anime_titles_unique (snd (create_anime req now db))"
proof -
  from create_anime_database[of req now db] show ?thesis
  proof
    assume "snd (create_anime req now db) = db"
    with assms show ?thesis by simp
  next
    assume "\<exists>i. insert_anime (ac_title req) None now db = Inr (i, snd (create_anime req now db))"
    then obtain i where ins:
      "insert_anime (ac_title req) None now db = Inr (i, snd (create_anime req now db))" ..
    note facts = select_after_insert_anime[OF ins]
    from ins have "i = next_rowid (anime_seq db) (map a_id (anime db))"
      by (auto simp: insert_anime_def Let_def split: if_splits)
    then have "i \<notin> set (map a_id (anime db))" by (simp only: next_rowid_fresh not_False_eq_True)
    with assms facts(3) show ?thesis
      by (subst facts(2), subst facts(2))
         (simp add: anime_ids_unique_def anime_titles_unique_def)
  qed
qed

lemma keys_delete_anime:
  assumes "anime_ids_unique db \<and> anime_titles_unique db"
  shows "anime_ids_unique (snd (delete_anime i db)) \<and>
         anime_titles_unique (snd (delete_anime i db))"
  using assms
  by (simp add: anime_ids_unique_def anime_titles_unique_def delete_anime_def
      sql_delete_anime_def get_db_def distinct_map_filter)

lemma anime_after_create_review: "anime (snd (create_review rv now db)) = anime db"
  by (auto simp: create_review_def insert_review_def Let_def
      split: option.splits sum.splits sql_error.splits if_splits)

lemma anime_after_update_review: "anime (snd (update_review i u db)) = anime db"
  by (auto simp: update_review_def sql_update_review_def
      split: option.splits sum.splits sql_error.splits if_splits)

lemma anime_after_delete_review: "anime (snd (delete_review i db)) = anime db"
  by (simp add: delete_review_def sql_delete_review_def)

lemma keys_review_handlers:
  assumes "anime_ids_unique db \<and> anime_titles_unique db"
  shows "anime_ids_unique (snd (create_review rv now db)) \<and>
         anime_titles_unique (snd (create_review rv now db))"
    and "anime_ids_unique (snd (update_review i u db)) \<and>
         anime_titles_unique (snd (update_review i u db))"
    and "anime_ids_unique (snd (delete_review i db)) \<and>
         anime_titles_unique (snd (delete_review i db))"
  using assms
  by (simp_all add: anime_ids_unique_def anime_titles_unique_def anime_after_create_review
      anime_after_update_review anime_after_delete_review)

section \<open>The normalized key\<close>

text \<open>
  \<open>LOWER(TRIM(title))\<close>, as the query computes it, is the normalized key: \<open>TRIM\<close> removes
  exactly the spaces at the two ends, and the table of \<open>LOWER\<close> moves exactly the codes
  65 to 90 up by 32.
\<close>

lemma strip_leading_is_dropWhile:
  "dropWhile (\<lambda>c. c = CHR '' '') s = strip_leading_spaces s"
  by (induction s) simp_all

lemma strip_trailing_is_rev_dropWhile:
  "rev (dropWhile (\<lambda>c. c = CHR '' '') (rev s)) = strip_trailing_spaces s"
proof (induction s)
  case Nil show ?case by simp
next
  case (Cons c cs)
  show ?case
  proof (cases "\<forall>x \<in> set cs. x = CHR '' ''")
    case True
    then have "dropWhile (\<lambda>c. c = CHR '' '') (rev cs) = []" by simp
    with Cons.IH have rest: "strip_trailing_spaces cs = []" by simp
    from True have "rev (dropWhile (\<lambda>c. c = CHR '' '') (rev (c # cs)))
                    = (if c = CHR '' '' then [] else [c])"
      by (simp add: dropWhile_append)
    with rest show ?thesis by simp
  next
    case False
    then have "dropWhile (\<lambda>c. c = CHR '' '') (rev cs) \<noteq> []" by (simp add: dropWhile_eq_Nil_conv)
    with Cons.IH have rest: "strip_trailing_spaces cs \<noteq> []" by auto
    from False have "rev (dropWhile (\<lambda>c. c = CHR '' '') (rev (c # cs)))
                     = c # rev (dropWhile (\<lambda>c. c = CHR '' '') (rev cs))"
      by (auto simp: dropWhile_append)
    with rest Cons.IH show ?thesis by simp
  qed
qed

lemma sql_trim_strips: "sql_trim s = strip_trailing_spaces (strip_leading_spaces s)"
proof -
  have "sql_trim s = strip_trailing_spaces (dropWhile (\<lambda>c. c = CHR '' '') s)"
    by (simp only: sql_trim_def strip_trailing_is_rev_dropWhile)
  then show ?thesis by (simp only: strip_leading_is_dropWhile)
qed

lemma lower_table_folds:
  "\<forall>c. (case map_of (zip ''ABCDEFGHIJKLMNOPQRSTUVWXYZ'' ''abcdefghijklmnopqrstuvwxyz'') c of
          None \<Rightarrow> c | Some l \<Rightarrow> l) = ascii_fold c"
  by code_simp

lemma sql_lower_folds: "sql_lower s = map ascii_fold s"
  by (simp only: sql_lower_def lower_table_folds[rule_format])

lemma title_key_normalized: "title_key t = normalized_key t"
  by (simp only: title_key_def normalized_key_def sql_trim_strips sql_lower_folds)

section \<open>The ranking query\<close>

lemma group_by_keys: "map fst (group_by key rows) = remdups (map key rows)"
  by (simp add: group_by_def comp_def)

lemma group_by_member:
  "kg \<in> set (group_by key rows) \<Longrightarrow>
   fst kg \<in> key ` set rows \<and> snd kg = filter (\<lambda>x. key x = fst kg) rows \<and> snd kg \<noteq> []"
  by (auto simp: group_by_def filter_empty_conv)

lemma inner_join_set:
  "set (inner_join as rs) = {(a, r). a \<in> set as \<and> r \<in> set rs \<and> a_id a = r_anime_id r}"
  by (auto simp: inner_join_def)

lemma inner_join_Cons:
  "inner_join (a # as) rs
   = map (\<lambda>r. (a, r)) (filter (\<lambda>r. a_id a = r_anime_id r) rs) @ inner_join as rs"
  by (simp add: inner_join_def)

lemma avg_of_ratings:
  "sql_avg (map (\<lambda>(a, r). Some (r_rating r)) g) = arithmetic_mean (map (r_rating \<circ> snd) g)"
proof -
  have "concat (map (\<lambda>v. case v of None \<Rightarrow> [] | Some x \<Rightarrow> [x])
                  (map (\<lambda>(a, r). Some (r_rating r)) g)) = map (r_rating \<circ> snd) g"
    by (induction g) (simp_all add: split_def)
  then show ?thesis by (simp only: sql_avg_def arithmetic_mean_def Let_def)
qed

lemma count_of_ids: "sql_count (map (\<lambda>(a, r). Some (r_id r)) g) = int (length g)"
  by (simp add: sql_count_def split_def)

lemma stats_select_group:
  assumes "g \<noteq> []"
  shows "\<exists>row. stats_select (k, g) = Some row \<and> normalized_title row = k \<and>
               average_rating row = arithmetic_mean (map (r_rating \<circ> snd) g) \<and>
               review_count row = int (length g) \<and>
               display_title row \<in> (a_title \<circ> fst) ` set g"
proof -
  from assms obtain a r rest where g: "g = (a, r) # rest" by (cases g) auto
  have "stats_select (k, g) =
          Some \<lparr>normalized_title = k, display_title = a_title a,
                average_rating = sql_avg (map (\<lambda>(a, r). Some (r_rating r)) g),
                review_count = sql_count (map (\<lambda>(a, r). Some (r_id r)) g)\<rparr>"
    by (simp add: stats_select_def g)
  then show ?thesis by (simp add: avg_of_ratings count_of_ids) (simp add: g)
qed

lemma map_filter_keys:
  "\<forall>x \<in> set xs. \<exists>y. f x = Some y \<and> h y = fst x \<Longrightarrow>
   map h (List.map_filter f xs) = map fst xs"
  by (induction xs) auto

lemma map_filter_member:
  "y \<in> set (List.map_filter f xs) \<Longrightarrow> \<exists>x \<in> set xs. f x = Some y"
  by (induction xs) (auto split: option.splits)

lemma ranking_rows:
  fixes key :: "anime_row \<times> review_row \<Rightarrow> string"
  defines "rows J \<equiv> order_by_desc average_rating
                      (filter (\<lambda>row. review_count row > 0)
                         (List.map_filter stats_select (group_by key J)))"
  shows "mset (map normalized_title (rows J)) = mset (remdups (map key J))"
    and "row \<in> set (rows J) \<Longrightarrow>
           normalized_title row \<in> key ` set J \<and>
           average_rating row =
             arithmetic_mean (map (r_rating \<circ> snd)
                                (filter (\<lambda>p. key p = normalized_title row) J)) \<and>
           review_count row = int (length (filter (\<lambda>p. key p = normalized_title row) J)) \<and>
           display_title row \<in>
             (a_title \<circ> fst) ` set (filter (\<lambda>p. key p = normalized_title row) J)"
proof -
  let ?G = "group_by key J"
  let ?rows0 = "List.map_filter stats_select ?G"
  have each: "\<exists>row. stats_select kg = Some row \<and> normalized_title row = fst kg \<and>
               average_rating row = arithmetic_mean (map (r_rating \<circ> snd) (snd kg)) \<and>
               review_count row = int (length (snd kg)) \<and>
               display_title row \<in> (a_title \<circ> fst) ` set (snd kg)"
    if "kg \<in> set ?G" for kg
  proof -
    from group_by_member[OF that] have "snd kg \<noteq> []" by blast
    from stats_select_group[OF this, of "fst kg"] show ?thesis by simp
  qed
  have member: "\<exists>kg \<in> set ?G. stats_select kg = Some row" if "row \<in> set ?rows0" for row
    using that by (rule map_filter_member)
  have counted: "review_count row > 0" if "row \<in> set ?rows0" for row
  proof -
    from member[OF that] obtain kg where kg: "kg \<in> set ?G" "stats_select kg = Some row" by blast
    from group_by_member[OF kg(1)] have "snd kg \<noteq> []" by blast
    with each[OF kg(1)] kg(2) show ?thesis by auto
  qed
  then have having: "filter (\<lambda>row. review_count row > 0) ?rows0 = ?rows0" by simp
  have rows: "rows J = order_by_desc average_rating ?rows0"
    by (simp only: rows_def having)
  have "map normalized_title ?rows0 = map fst ?G"
    by (rule map_filter_keys) (use each in blast)
  then have keys: "map normalized_title ?rows0 = remdups (map key J)"
    by (simp only: group_by_keys)
  have "mset (map normalized_title (rows J)) = mset (map normalized_title ?rows0)"
    unfolding rows by (simp only: mset_map mset_order_by_desc)
  then show "mset (map normalized_title (rows J)) = mset (remdups (map key J))"
    by (simp only: keys)
  show "normalized_title row \<in> key ` set J \<and>
           average_rating row =
             arithmetic_mean (map (r_rating \<circ> snd)
                                (filter (\<lambda>p. key p = normalized_title row) J)) \<and>
           review_count row = int (length (filter (\<lambda>p. key p = normalized_title row) J)) \<and>
           display_title row \<in>
             (a_title \<circ> fst) ` set (filter (\<lambda>p. key p = normalized_title row) J)"
    if "row \<in> set (rows J)"
  proof -
    from that have "row \<in> set ?rows0" unfolding rows set_order_by_desc .
    from member[OF this] obtain kg where kg: "kg \<in> set ?G" "stats_select kg = Some row" by blast
    from group_by_member[OF kg(1)]
    have k: "fst kg \<in> key ` set J" and g: "snd kg = filter (\<lambda>x. key x = fst kg) J"
      by blast+
    from each[OF kg(1)] kg(2) have
      "normalized_title row = fst kg"
      "average_rating row = arithmetic_mean (map (r_rating \<circ> snd) (snd kg))"
      "review_count row = int (length (snd kg))"
      "display_title row \<in> (a_title \<circ> fst) ` set (snd kg)" by auto
    with k g show ?thesis by simp
  qed
qed

lemma mset_filter_disjoint:
  "\<forall>x \<in> set xs. \<not> (P x \<and> Q x) \<Longrightarrow>
   mset (filter (\<lambda>x. P x \<or> Q x) xs) = mset (filter P xs) + mset (filter Q xs)"
  by (induction xs) auto

lemma filter_pairs_of_one: "map snd (filter Q (map (\<lambda>r. (a, r)) rs)) = filter (\<lambda>r. Q (a, r)) rs"
  by (induction rs) simp_all

lemma inner_join_reviews:
  assumes "distinct (map a_id as)"
  shows "mset (map snd (filter Q (inner_join as rs)))
         = mset (filter (\<lambda>r. \<exists>a \<in> set as. a_id a = r_anime_id r \<and> Q (a, r)) rs)"
  using assms
proof (induction as)
  case Nil show ?case by (simp add: inner_join_def)
next
  case (Cons b bs)
  let ?own = "\<lambda>r. a_id b = r_anime_id r \<and> Q (b, r)"
  let ?others = "\<lambda>r. \<exists>a \<in> set bs. a_id a = r_anime_id r \<and> Q (a, r)"
  from Cons.prems have fresh: "a_id b \<notin> a_id ` set bs" and d: "distinct (map a_id bs)" by simp_all
  have own: "map snd (filter Q (map (\<lambda>r. (b, r)) (filter (\<lambda>r. a_id b = r_anime_id r) rs)))
             = filter ?own rs"
    by (simp only: filter_pairs_of_one filter_filter)
  have disjoint: "\<forall>r \<in> set rs. \<not> (?own r \<and> ?others r)" using fresh by force
  have "mset (map snd (filter Q (inner_join (b # bs) rs)))
        = mset (filter ?own rs) + mset (map snd (filter Q (inner_join bs rs)))"
    by (simp only: inner_join_Cons filter_append map_append mset_append own)
  also have "\<dots> = mset (filter ?own rs) + mset (filter ?others rs)"
    by (simp only: Cons.IH[OF d])
  also have "\<dots> = mset (filter (\<lambda>r. ?own r \<or> ?others r) rs)"
    by (rule mset_filter_disjoint[OF disjoint, symmetric])
  also have "(\<lambda>r. ?own r \<or> ?others r)
             = (\<lambda>r. \<exists>a \<in> set (b # bs). a_id a = r_anime_id r \<and> Q (a, r))"
    by auto
  finally show ?case .
qed

lemma arithmetic_mean_mset:
  assumes "mset xs = mset ys"
  shows "arithmetic_mean xs = arithmetic_mean ys"
proof -
  from assms have "sum_mset (mset xs) = sum_mset (mset ys)" by simp
  then have s: "sum_list xs = sum_list ys" by (simp only: sum_mset_sum_list)
  from assms have l: "length xs = length ys" by (rule mset_eq_length)
  then have "xs = [] \<longleftrightarrow> ys = []" by auto
  with s l show ?thesis by (simp add: arithmetic_mean_def)
qed

lemma watched_group_reviews:
  assumes "anime_ids_unique db"
  shows "mset (map snd (filter (\<lambda>p. (\<lambda>(a, r). title_key (a_title a)) p = k)
                          (filter (\<lambda>(a, r). r_status r = ''watched'')
                             (inner_join (anime db) (reviews db)))))
         = mset (watched_reviews_of_key db k)"
proof -
  from assms have d: "distinct (map a_id (anime db))" by (simp add: anime_ids_unique_def)
  let ?Q = "\<lambda>(a, r). r_status r = ''watched'' \<and> title_key (a_title a) = k"
  have group: "filter (\<lambda>p. (\<lambda>(a, r). title_key (a_title a)) p = k)
          (filter (\<lambda>(a, r). r_status r = ''watched'') (inner_join (anime db) (reviews db)))
        = filter ?Q (inner_join (anime db) (reviews db))"
    by (simp add: split_def)
  have "mset (map snd (filter ?Q (inner_join (anime db) (reviews db))))
        = mset (filter (\<lambda>r. \<exists>a \<in> set (anime db). a_id a = r_anime_id r \<and> ?Q (a, r))
                  (reviews db))"
    by (rule inner_join_reviews[OF d])
  also have "filter (\<lambda>r. \<exists>a \<in> set (anime db). a_id a = r_anime_id r \<and> ?Q (a, r)) (reviews db)
             = watched_reviews_of_key db k"
    unfolding watched_reviews_of_key_def
    by (rule filter_cong) (auto simp: title_key_normalized)
  finally show ?thesis unfolding group .
qed

lemma watched_keys:
  "(\<lambda>(a, r). title_key (a_title a))
     ` set (filter (\<lambda>(a, r). r_status r = ''watched'') (inner_join (anime db) (reviews db)))
   = {k. watched_reviews_of_key db k \<noteq> []}"
  by (auto simp: inner_join_set watched_reviews_of_key_def filter_empty_conv image_iff
      title_key_normalized)

lemma get_stats_entries:
  "get_stats db =
     map (\<lambda>row. \<lparr>se_title = display_title row, se_average_rating = average_rating row,
                  se_review_count = review_count row\<rparr>) (get_stats_rows db)"
  by (simp add: get_stats_def)

lemma get_stats_row:
  assumes unique: "anime_ids_unique db" and row: "row \<in> set (get_stats_rows db)"
  shows "average_rating row =
           arithmetic_mean (map r_rating (watched_reviews_of_key db (normalized_title row)))"
    and "review_count row = int (length (watched_reviews_of_key db (normalized_title row)))"
    and "\<exists>a \<in> set (anime db). display_title row = a_title a \<and>
            normalized_key (a_title a) = normalized_title row \<and>
            (\<exists>r \<in> set (reviews_of_title db (a_id a)). r_status r = ''watched'')"
proof -
  let ?key = "\<lambda>(a, r). title_key (a_title a)"
  let ?J = "filter (\<lambda>(a, r). r_status r = ''watched'') (inner_join (anime db) (reviews db))"
  let ?g = "filter (\<lambda>p. ?key p = normalized_title row) ?J"
  let ?W = "watched_reviews_of_key db (normalized_title row)"
  from row have "row \<in> set (order_by_desc average_rating
                      (filter (\<lambda>row. review_count row > 0)
                         (List.map_filter stats_select (group_by ?key ?J))))"
    by (simp only: get_stats_rows_def)
  from ranking_rows(2)[OF this] have
    avg: "average_rating row = arithmetic_mean (map (r_rating \<circ> snd) ?g)" and
    cnt: "review_count row = int (length ?g)" and
    shown: "display_title row \<in> (a_title \<circ> fst) ` set ?g" by blast+
  note group = watched_group_reviews[OF unique, of "normalized_title row"]
  have "mset (map r_rating (map snd ?g)) = mset (map r_rating ?W)"
    using group by (simp only: mset_map)
  from arithmetic_mean_mset[OF this] avg
  show "average_rating row = arithmetic_mean (map r_rating ?W)" by (simp only: map_map)
  have "length (map snd ?g) = length ?W" using group by (rule mset_eq_length)
  with cnt show "review_count row = int (length ?W)" by simp
  from shown obtain a r where ar: "(a, r) \<in> set ?g" and title: "display_title row = a_title a"
    by auto
  from ar have in_a: "a \<in> set (anime db)"
    and key: "normalized_key (a_title a) = normalized_title row"
    and r: "r \<in> set (reviews_of_title db (a_id a))" "r_status r = ''watched''"
    by (auto simp: inner_join_set reviews_of_title_def title_key_normalized)
  then show "\<exists>a \<in> set (anime db). display_title row = a_title a \<and>
            normalized_key (a_title a) = normalized_title row \<and>
            (\<exists>r \<in> set (reviews_of_title db (a_id a)). r_status r = ''watched'')"
    using title by blast
qed

lemma get_stats_keys:
  shows "distinct (map normalized_title (get_stats_rows db))"
    and "set (map normalized_title (get_stats_rows db)) = {k. watched_reviews_of_key db k \<noteq> []}"
proof -
  let ?key = "\<lambda>(a, r). title_key (a_title a)"
  let ?J = "filter (\<lambda>(a, r). r_status r = ''watched'') (inner_join (anime db) (reviews db))"
  have m: "mset (map normalized_title (get_stats_rows db)) = mset (remdups (map ?key ?J))"
    unfolding get_stats_rows_def by (rule ranking_rows(1))
  from mset_eq_imp_distinct_iff[OF m]
  show "distinct (map normalized_title (get_stats_rows db))" by simp
  from mset_eq_setD[OF m]
  have "set (map normalized_title (get_stats_rows db)) = ?key ` set ?J" by simp
  then show "set (map normalized_title (get_stats_rows db)) = {k. watched_reviews_of_key db k \<noteq> []}"
    by (simp only: watched_keys)
qed

lemma unwatched_title_not_shown:
  assumes unique: "anime_ids_unique db" and titles: "anime_titles_unique db"
    and a: "a \<in> set (anime db)"
    and none: "\<forall>r \<in> set (reviews_of_title db (a_id a)). r_status r \<noteq> ''watched''"
  shows "a_title a \<notin> set (map se_title (get_stats db))"
proof
  assume "a_title a \<in> set (map se_title (get_stats db))"
  then obtain row where row: "row \<in> set (get_stats_rows db)" and t: "display_title row = a_title a"
    by (auto simp: get_stats_entries)
  from get_stats_row(3)[OF unique row] obtain b where
    shown: "b \<in> set (anime db)" "display_title row = a_title b"
       "\<exists>r \<in> set (reviews_of_title db (a_id b)). r_status r = ''watched''" by blast
  from shown(2) t have "a_title b = a_title a" by simp
  note b = shown(1) this shown(3)
  from titles have "inj_on a_title (set (anime db))"
    by (simp add: anime_titles_unique_def distinct_map)
  with a b(1,2) have "b = a" by (meson inj_onD)
  with b(3) none show False by auto
qed

text \<open>
  Claim C4 as the claim states it fails: with "whitespace-trimmed" and "lowercased"
  read as the words say, the four titles of \<open>variant_titles_db\<close> have two distinct keys,
  each with watched reviews, and the ranking has four entries: a tab is not trimmed, and
  a capital outside ASCII is not folded.
\<close>

theorem ranking_splits_tab_and_accent_variants:
  "claimed_key (CHR 0x09 # ''naruto'') = claimed_key ''naruto'' \<and>
   claimed_key ([CHR 0xC3, CHR 0x89] @ ''COLE'') = claimed_key ([CHR 0xC3, CHR 0xA9] @ ''cole'') \<and>
   remdups (map (claimed_key \<circ> a_title) (anime variant_titles_db))
     = [''naruto'', [CHR 0xC3, CHR 0xA9] @ ''cole''] \<and>
   get_stats variant_titles_db =
     [\<lparr>se_title = ''naruto'', se_average_rating = Some 9, se_review_count = 1\<rparr>,
      \<lparr>se_title = CHR 0x09 # ''naruto'', se_average_rating = Some 8, se_review_count = 1\<rparr>,
      \<lparr>se_title = [CHR 0xC3, CHR 0x89] @ ''COLE'', se_average_rating = Some 7,
        se_review_count = 1\<rparr>,
      \<lparr>se_title = [CHR 0xC3, CHR 0xA9] @ ''cole'', se_average_rating = Some 6,
        se_review_count = 1\<rparr>]"
  by code_simp

text \<open>
  Claim C4 as amended. The normalized key of a title is the title without the space
  characters at its two ends and with the 26 ASCII capitals in lower case (other
  whitespace and letters outside ASCII untouched). The ranking has exactly one row for
  each normalized key that has a watched review; the row carries the mean rating and the
  number of the watched reviews of the titles with that key, and the title of one of
  those titles that has a watched review; the rows are in descending order of the mean;
  the entries returned are these rows, in this order. A title without a watched review
  (planning reviews only, or none) is not shown, and its reviews count nowhere.
\<close>

theorem ranking_by_normalized_key:
  assumes "anime_ids_unique db"
  shows "distinct (map normalized_title (get_stats_rows db)) \<and>
    set (map normalized_title (get_stats_rows db)) = {k. watched_reviews_of_key db k \<noteq> []} \<and>
    (\<forall>row \<in> set (get_stats_rows db).
       average_rating row =
         arithmetic_mean (map r_rating (watched_reviews_of_key db (normalized_title row))) \<and>
       review_count row = int (length (watched_reviews_of_key db (normalized_title row))) \<and>
       (\<exists>a \<in> set (anime db). display_title row = a_title a \<and>
          normalized_key (a_title a) = normalized_title row \<and>
          (\<exists>r \<in> set (reviews_of_title db (a_id a)). r_status r = ''watched''))) \<and>
    sorted_wrt (\<lambda>x y. average_rating y \<le> average_rating x) (get_stats_rows db) \<and>
    get_stats db =
      map (\<lambda>row. \<lparr>se_title = display_title row, se_average_rating = average_rating row,
                   se_review_count = review_count row\<rparr>) (get_stats_rows db) \<and>
    (anime_titles_unique db \<longrightarrow>
       (\<forall>a \<in> set (anime db).
          (\<forall>r \<in> set (reviews_of_title db (a_id a)). r_status r \<noteq> ''watched'') \<longrightarrow>
          a_title a \<notin> set (map se_title (get_stats db))))"
proof -
  have sorted: "sorted_wrt (\<lambda>x y. average_rating y \<le> average_rating x) (get_stats_rows db)"
    unfolding get_stats_rows_def by (rule descending_order_by_desc)
  from get_stats_keys[of db] get_stats_row[OF assms] sorted get_stats_entries[of db]
    unwatched_title_not_shown[OF assms]
  show ?thesis by blast
qed

lemma ranking_db_rows:
  "get_stats_rows ranking_db =
     [\<lparr>normalized_title = ''naruto'', display_title = ''Naruto'', average_rating = Some 7,
        review_count = 3\<rparr>,
      \<lparr>normalized_title = ''bleach'', display_title = ''Bleach'', average_rating = Some 6,
        review_count = 1\<rparr>]"
  by code_simp

theorem ranking_by_normalized_key_witness:
  "anime_ids_unique ranking_db \<and> anime_titles_unique ranking_db \<and>
   get_stats ranking_db =
     [\<lparr>se_title = ''Naruto'', se_average_rating = Some 7, se_review_count = 3\<rparr>,
      \<lparr>se_title = ''Bleach'', se_average_rating = Some 6, se_review_count = 1\<rparr>] \<and>
   normalized_key '' NARUTO  '' = ''naruto'' \<and> normalized_key ''Naruto'' = ''naruto'' \<and>
   map r_id (watched_reviews_of_key ranking_db ''naruto'') = [2, 4, 5] \<and>
   arithmetic_mean (map r_rating (watched_reviews_of_key ranking_db ''naruto'')) = Some 7 \<and>
   int (length (watched_reviews_of_key ranking_db ''naruto'')) = 3 \<and>
   arithmetic_mean (map r_rating (watched_reviews_of_key ranking_db ''bleach'')) = Some 6 \<and>
   int (length (watched_reviews_of_key ranking_db ''bleach'')) = 1 \<and>
   ''One Piece'' \<notin> set (map se_title (get_stats ranking_db)) \<and>
   ''Monster'' \<notin> set (map se_title (get_stats ranking_db))"
proof -
  have u: "anime_ids_unique ranking_db" by (simp add: anime_ids_unique_def ranking_db_def)
  have t: "anime_titles_unique ranking_db" by (simp add: anime_titles_unique_def ranking_db_def)
  have k: "normalized_key '' NARUTO  '' = ''naruto''" "normalized_key ''Naruto'' = ''naruto''"
    by code_simp+
  have w: "map r_id (watched_reviews_of_key ranking_db ''naruto'') = [2, 4, 5]"
    by code_simp
  note all = ranking_by_normalized_key[OF u]
  let ?naruto = "\<lparr>normalized_title = ''naruto'', display_title = ''Naruto'',
                   average_rating = Some 7, review_count = 3\<rparr>"
  let ?bleach = "\<lparr>normalized_title = ''bleach'', display_title = ''Bleach'',
                   average_rating = Some 6, review_count = 1\<rparr>"
  have n: "?naruto \<in> set (get_stats_rows ranking_db)" by (simp add: ranking_db_rows)
  have b: "?bleach \<in> set (get_stats_rows ranking_db)" by (simp add: ranking_db_rows)
  note per_row = all[THEN conjunct2, THEN conjunct2, THEN conjunct1, rule_format]
  note entries = all[THEN conjunct2, THEN conjunct2, THEN conjunct2, THEN conjunct2, THEN conjunct1]
  note hidden = all[THEN conjunct2, THEN conjunct2, THEN conjunct2, THEN conjunct2,
                    THEN conjunct2, rule_format, OF t]
  let ?piece = "\<lparr>a_id = 3, a_title = ''One Piece'', a_description = None, a_created_at = 30\<rparr>"
  let ?monster = "\<lparr>a_id = 4, a_title = ''Monster'', a_description = None, a_created_at = 40\<rparr>"
  have p: "''One Piece'' \<notin> set (map se_title (get_stats ranking_db))"
    using hidden[of ?piece] by (simp add: ranking_db_def reviews_of_title_def)
  have m: "''Monster'' \<notin> set (map se_title (get_stats ranking_db))"
    using hidden[of ?monster] by (simp add: ranking_db_def reviews_of_title_def)
  have e: "get_stats ranking_db =
     [\<lparr>se_title = ''Naruto'', se_average_rating = Some 7, se_review_count = 3\<rparr>,
      \<lparr>se_title = ''Bleach'', se_average_rating = Some 6, se_review_count = 1\<rparr>]"
    unfolding entries by (simp add: ranking_db_rows)
  from per_row[OF n] per_row[OF b] u t e p m k w show ?thesis by simp
qed

end
